theory Spec2Isabelle
  imports Complex_Main "HOL-Library.AList"
begin

section \<open>Conventions of the embedding\<close>

text \<open>
  JavaScript numbers are modelled as \<^typ>\<open>real\<close> (counters that are only ever incremented
  from 0 as \<^typ>\<open>nat\<close>, millisecond timestamps as \<^typ>\<open>int\<close>); rounding of IEEE doubles and
  \<open>NaN\<close> are outside the model. An optional field that may be \<open>undefined\<close> is an
  \<^typ>\<open>'a option\<close>. A JavaScript \<open>Map\<close> whose iteration order is used by the code is an
  association list with distinct keys in insertion order (\<open>set\<close> is \<^const>\<open>AList.update\<close>,
  \<open>delete\<close> is \<^const>\<open>AList.delete\<close>); a \<open>Map\<close> that is only looked up is a map
  \<open>'k \<rightharpoonup> 'v\<close>. Every call of \<open>Date.now()\<close> is a reading of a clock handed to the
  operation: \<open>now k\<close> is the value of the \<open>k\<close>-th reading made during the call.
\<close>

type_synonym clock = "nat \<Rightarrow> int"

definition later :: "nat \<Rightarrow> clock \<Rightarrow> clock" where
  "later n now = (\<lambda>k. now (k + n))"

text \<open>Truthiness of a string, as tested by \<open>if (s)\<close> and \<open>s || d\<close>.\<close>

definition truthy :: "string \<Rightarrow> bool" where
  "truthy s = (s \<noteq> [])"

section \<open>Session manager: \<open>class ReactiveSessionManager\<close> (src/models/Track.js)\<close>

subsection \<open>Data\<close>

record reactionData =
  trackId :: string
  reaction :: string
  intensity :: "real option"
  profileId :: string
  timestamp :: int

record participant =
  userId :: string
  p_profileId :: string
  connectionId :: string
  joinedAt :: int
  p_reactions :: "reactionData list"
  currentEngagement :: real
  totalListeningTime :: real

record userInfo =
  u_userId :: string
  u_profileId :: string
  u_connectionId :: string

record trackInfo =
  ti_trackId :: string
  ti_title :: "string option"
  ti_artist :: "string option"

record metrics =
  totalDuration :: real
  tracksPlayed :: nat
  positiveReactions :: nat
  negativeReactions :: nat
  averageEngagement :: real

record settings =
  autoNext :: bool
  reactionThreshold :: real
  maxParticipants :: real

text \<open>The caller's \<open>options.settings\<close>: each key it carries overrides the default.\<close>

record settingsPatch =
  set_autoNext :: "bool option"
  set_reactionThreshold :: "real option"
  set_maxParticipants :: "real option"

record options =
  o_sessionId :: "string option"
  o_settings :: "settingsPatch option"

record session =
  s_id :: string
  createdAt :: int
  participants :: "(string \<times> participant) list"
  currentTrack :: "(trackInfo \<times> int) option"
  playlist :: "string list"
  s_reactions :: "reactionData list"
  s_metrics :: metrics
  s_settings :: settings

text \<open>The object built by \<open>calculateSessionMetrics\<close>.\<close>

record sessionMetrics =
  m_sessionId :: string
  m_duration :: int
  m_participantCount :: nat
  m_tracksPlayed :: nat
  m_totalReactions :: nat
  m_positiveReactions :: nat
  m_negativeReactions :: nat
  m_positivityRatio :: real
  m_averageEngagement :: real
  m_currentTrack :: "(trackInfo \<times> int) option"
  m_isActive :: bool
  m_lastActivity :: int

text \<open>What is pushed on \<open>sessionEvents$\<close>.\<close>

datatype event =
    SESSION_CREATED string int
  | USER_JOINED string string string int
  | USER_LEFT string string int
  | TRACK_CHANGED string trackInfo int
  | SESSION_ENDED string int sessionMetrics

text \<open>
  The manager: \<open>activeSessions\<close>, \<open>userSessions\<close>, and the values emitted so far on the
  subjects \<open>sessionEvents$\<close> and \<open>userReactions$\<close> (oldest first). The table held by
  \<open>sessions$\<close> is written by every operation with the same keys and the same session objects
  as \<open>activeSessions\<close>, so the one table stands for both.
\<close>

record manager =
  activeSessions :: "string \<rightharpoonup> session"
  userSessions :: "string \<rightharpoonup> string"
  sessionEvents :: "event list"
  userReactions :: "(string \<times> reactionData) list"

definition new_manager :: manager where
  "new_manager = \<lparr>activeSessions = Map.empty, userSessions = Map.empty,
                   sessionEvents = [], userReactions = []\<rparr>"

datatype error = SessionNotFound string

subsection \<open>Metrics and engagement\<close>

text \<open>\<open>reaction.intensity || 3\<close>: a missing intensity and the number 0 both give 3.\<close>

definition intensityScore :: "reactionData \<Rightarrow> real" where
  "intensityScore r = (case intensity r of None \<Rightarrow> 3 | Some i \<Rightarrow> if i = 0 then 3 else i)"

definition ageWeight :: "int \<Rightarrow> reactionData \<Rightarrow> real" where
  "ageWeight now r = exp (- (real_of_int (now - timestamp r)) / (5 * 60 * 1000))"

definition calculateEngagement :: "int \<Rightarrow> reactionData list \<Rightarrow> real" where
  "calculateEngagement now reactions =
     (if reactions = [] then 0
      else sum_list (map (\<lambda>r. intensityScore r * ageWeight now r) reactions)
           / real (length reactions))"

text \<open>\<open>x >= 4\<close> and \<open>x <= 2\<close> are false when \<open>x\<close> is \<open>undefined\<close>.\<close>

definition intensity_ge :: "real option \<Rightarrow> real \<Rightarrow> bool" where
  "intensity_ge i k = (case i of None \<Rightarrow> False | Some x \<Rightarrow> x \<ge> k)"

definition intensity_le :: "real option \<Rightarrow> real \<Rightarrow> bool" where
  "intensity_le i k = (case i of None \<Rightarrow> False | Some x \<Rightarrow> x \<le> k)"

definition isPositive :: "reactionData \<Rightarrow> bool" where
  "isPositive r = (reaction r = ''like'' \<or> reaction r = ''strongly like''
                   \<or> intensity_ge (intensity r) 4)"

definition isNegative :: "reactionData \<Rightarrow> bool" where
  "isNegative r = (reaction r = ''dislike'' \<or> reaction r = ''strongly dislike''
                   \<or> intensity_le (intensity r) 2)"

definition participantEngagements :: "session \<Rightarrow> real list" where
  "participantEngagements s = map (\<lambda>(u, p). currentEngagement p) (participants s)"

definition meanEngagement :: "session \<Rightarrow> real" where
  "meanEngagement s =
     (let es = participantEngagements s
      in if length es > 0 then sum_list es / real (length es) else 0)"

definition updateSessionMetrics :: "session \<Rightarrow> reactionData \<Rightarrow> session" where
  "updateSessionMetrics s rd =
     (let m = s_metrics s;
          m1 = (if isPositive rd then m\<lparr>positiveReactions := positiveReactions m + 1\<rparr>
                else if isNegative rd then m\<lparr>negativeReactions := negativeReactions m + 1\<rparr>
                else m)
      in s\<lparr>s_metrics := m1\<lparr>averageEngagement := meanEngagement s\<rparr>\<rparr>)"

definition calculateSessionMetrics :: "int \<Rightarrow> session \<Rightarrow> sessionMetrics" where
  "calculateSessionMetrics now s =
     (let rs = s_reactions s;
          pos = length (filter isPositive rs);
          neg = length (filter isNegative rs)
      in \<lparr>m_sessionId = s_id s,
          m_duration = now - createdAt s,
          m_participantCount = length (participants s),
          m_tracksPlayed = tracksPlayed (s_metrics s),
          m_totalReactions = length rs,
          m_positiveReactions = pos,
          m_negativeReactions = neg,
          m_positivityRatio = (if length rs > 0 then real pos / real (length rs) else 0),
          m_averageEngagement = meanEngagement s,
          m_currentTrack = currentTrack s,
          m_isActive = True,
          m_lastActivity = (case rs of [] \<Rightarrow> createdAt s
                            | r # rs' \<Rightarrow> fold max (map timestamp rs') (timestamp r))\<rparr>)"

subsection \<open>Operations\<close>

definition defaultSettings :: settings where
  "defaultSettings = \<lparr>autoNext = True, reactionThreshold = 3, maxParticipants = 10\<rparr>"

definition mergeSettings :: "settingsPatch option \<Rightarrow> settings" where
  "mergeSettings po =
     (case po of None \<Rightarrow> defaultSettings
      | Some p \<Rightarrow>
          \<lparr>autoNext = (case set_autoNext p of None \<Rightarrow> True | Some b \<Rightarrow> b),
           reactionThreshold = (case set_reactionThreshold p of None \<Rightarrow> 3 | Some x \<Rightarrow> x),
           maxParticipants = (case set_maxParticipants p of None \<Rightarrow> 10 | Some x \<Rightarrow> x)\<rparr>)"

text \<open>
  \<open>createSession(options)\<close>; \<open>uuid\<close> is the value \<open>uuidv4()\<close> returns when it is called.
  The result is the new session and the manager after the call.
\<close>

definition createSession :: "clock \<Rightarrow> string \<Rightarrow> options \<Rightarrow> manager \<Rightarrow> session \<times> manager" where
  "createSession now uuid opts m =
     (let sessionId = (case o_sessionId opts of
                         None \<Rightarrow> uuid
                       | Some i \<Rightarrow> if truthy i then i else uuid);
          s = \<lparr>s_id = sessionId, createdAt = now 0, participants = [],
               currentTrack = None, playlist = [], s_reactions = [],
               s_metrics = \<lparr>totalDuration = 0, tracksPlayed = 0, positiveReactions = 0,
                            negativeReactions = 0, averageEngagement = 0\<rparr>,
               s_settings = mergeSettings (o_settings opts)\<rparr>
      in (s, m\<lparr>activeSessions := (activeSessions m)(sessionId \<mapsto> s),
               sessionEvents := sessionEvents m @ [SESSION_CREATED sessionId (now 1)]\<rparr>))"

definition joinSession ::
  "clock \<Rightarrow> string \<Rightarrow> userInfo \<Rightarrow> manager \<Rightarrow> error + (session \<times> manager)" where
  "joinSession now sessionId ui m =
     (case activeSessions m sessionId of
        None \<Rightarrow> Inl (SessionNotFound sessionId)
      | Some s \<Rightarrow>
          (let p = \<lparr>userId = u_userId ui, p_profileId = u_profileId ui,
                    connectionId = u_connectionId ui, joinedAt = now 0,
                    p_reactions = [], currentEngagement = 0, totalListeningTime = 0\<rparr>;
               s' = s\<lparr>participants := AList.update (u_userId ui) p (participants s)\<rparr>
           in Inr (s', m\<lparr>activeSessions := (activeSessions m)(sessionId \<mapsto> s'),
                          userSessions := (userSessions m)(u_userId ui \<mapsto> sessionId),
                          sessionEvents := sessionEvents m @
                            [USER_JOINED sessionId (u_userId ui) (u_profileId ui) (now 1)]\<rparr>)))"

definition endSession :: "clock \<Rightarrow> string \<Rightarrow> manager \<Rightarrow> manager" where
  "endSession now sessionId m =
     (case activeSessions m sessionId of
        None \<Rightarrow> m
      | Some s \<Rightarrow>
          m\<lparr>userSessions := fold (\<lambda>(u, p) us. us(userId p := None)) (participants s)
                               (userSessions m),
            activeSessions := (activeSessions m)(sessionId := None),
            sessionEvents := sessionEvents m @
              [SESSION_ENDED sessionId (now 0) (calculateSessionMetrics (now 1) s)]\<rparr>)"

text \<open>The loop of \<open>leaveSession\<close>: the key of the first participant with the connection id.\<close>

fun findByConnection :: "(string \<times> participant) list \<Rightarrow> string \<Rightarrow> string option" where
  "findByConnection [] c = None"
| "findByConnection ((u, p) # ps) c =
     (if connectionId p = c then Some u else findByConnection ps c)"

definition leaveSession :: "clock \<Rightarrow> string \<Rightarrow> string \<Rightarrow> manager \<Rightarrow> manager" where
  "leaveSession now sessionId connId m =
     (case activeSessions m sessionId of
        None \<Rightarrow> m
      | Some s \<Rightarrow>
          (case findByConnection (participants s) connId of
             None \<Rightarrow> m
           | Some userIdToRemove \<Rightarrow>
               if truthy userIdToRemove then
                 (let s' = s\<lparr>participants := AList.delete userIdToRemove (participants s)\<rparr>;
                      m' = m\<lparr>activeSessions := (activeSessions m)(sessionId \<mapsto> s'),
                             userSessions := (userSessions m)(userIdToRemove := None),
                             sessionEvents := sessionEvents m @
                               [USER_LEFT sessionId userIdToRemove (now 0)]\<rparr>
                  in if length (participants s') = 0
                     then endSession (later 1 now) sessionId m' else m')
               else m))"

text \<open>
  The loop of \<open>updateUserReaction\<close>: the first participant whose profile id is the
  reaction's gets the reaction and a recomputed engagement, then the loop breaks.
\<close>

fun updateParticipant ::
  "int \<Rightarrow> reactionData \<Rightarrow> (string \<times> participant) list \<Rightarrow> (string \<times> participant) list" where
  "updateParticipant now rd [] = []"
| "updateParticipant now rd ((u, p) # ps) =
     (if p_profileId p = profileId rd
      then (u, p\<lparr>p_reactions := p_reactions p @ [rd],
                 currentEngagement := calculateEngagement now (p_reactions p @ [rd])\<rparr>) # ps
      else (u, p) # updateParticipant now rd ps)"

definition updateUserReaction :: "clock \<Rightarrow> string \<Rightarrow> reactionData \<Rightarrow> manager \<Rightarrow> manager" where
  "updateUserReaction now sessionId rd m =
     (case activeSessions m sessionId of
        None \<Rightarrow> m
      | Some s \<Rightarrow>
          (let s1 = s\<lparr>s_reactions := s_reactions s @ [rd]\<rparr>;
               s2 = s1\<lparr>participants := updateParticipant (now 0) rd (participants s1)\<rparr>;
               s3 = updateSessionMetrics s2 rd
           in m\<lparr>activeSessions := (activeSessions m)(sessionId \<mapsto> s3),
                 userReactions := userReactions m @ [(sessionId, rd)]\<rparr>))"

definition updateCurrentTrack :: "clock \<Rightarrow> string \<Rightarrow> trackInfo \<Rightarrow> manager \<Rightarrow> manager" where
  "updateCurrentTrack now sessionId ti m =
     (case activeSessions m sessionId of
        None \<Rightarrow> m
      | Some s \<Rightarrow>
          (let s' = s\<lparr>currentTrack := Some (ti, now 0),
                      s_metrics := (s_metrics s)\<lparr>tracksPlayed := tracksPlayed (s_metrics s) + 1\<rparr>\<rparr>
           in m\<lparr>activeSessions := (activeSessions m)(sessionId \<mapsto> s'),
                 sessionEvents := sessionEvents m @ [TRACK_CHANGED sessionId ti (now 1)]\<rparr>))"

section \<open>Recommendation engine: \<open>class MusicRecommendationEngine\<close> (src/reactive/music-engine.js)\<close>

subsection \<open>Data\<close>

record features =
  genre :: string
  era :: real
  energy :: real
  valence :: real
  tempo :: real

text \<open>An entry of a strategy's list: \<open>{trackId, score, reason}\<close>.\<close>

record recommendation =
  rec_trackId :: string
  score :: real
  reason :: string

text \<open>An entry of the combined list: \<open>{trackId, score, reasons}\<close>.\<close>

record combinedRec =
  c_trackId :: string
  c_score :: real
  reasons :: "string list"

text \<open>
  A value that \<open>reactionToScore\<close> returns and the preference table stores: a number, or
  the member of \<open>Object.prototype\<close> of the given name (a function, or for \<open>__proto__\<close>
  the prototype object), which the lookup \<open>baseScores[reaction]\<close> yields for a label that
  names such a member.
\<close>

datatype scoreValue = Number real | Inherited string

text \<open>
  The engine's state as far as the operations below touch it: the table of
  \<open>userPreferences$\<close> (profile id to track id to score), the catalog of \<open>trackFeatures$\<close>
  in insertion order, and the values emitted on \<open>realtimeReactions$\<close> (session id, the
  reaction, its score).
\<close>

record engine =
  userPreferences :: "string \<rightharpoonup> (string \<rightharpoonup> scoreValue)"
  trackFeatures :: "(string \<times> features) list"
  realtimeReactions :: "(string \<times> reactionData \<times> scoreValue) list"

text \<open>The catalog loaded by \<open>initializeEngine\<close>.\<close>

definition initialCatalog :: "(string \<times> features) list" where
  "initialCatalog =
     [(''track1'', \<lparr>genre = ''classical'', era = 1960, energy = 0.3, valence = 0.7, tempo = 80\<rparr>),
      (''track2'', \<lparr>genre = ''folk'', era = 1970, energy = 0.5, valence = 0.8, tempo = 100\<rparr>),
      (''track3'', \<lparr>genre = ''jazz'', era = 1950, energy = 0.6, valence = 0.6, tempo = 120\<rparr>),
      (''track4'', \<lparr>genre = ''blues'', era = 1960, energy = 0.4, valence = 0.5, tempo = 90\<rparr>),
      (''track5'', \<lparr>genre = ''classical'', era = 1940, energy = 0.2, valence = 0.9, tempo = 70\<rparr>)]"

definition new_engine :: engine where
  "new_engine = \<lparr>userPreferences = Map.empty, trackFeatures = initialCatalog,
                  realtimeReactions = []\<rparr>"

subsection \<open>Scores and similarity\<close>

definition baseScores :: "string \<rightharpoonup> real" where
  "baseScores = map_of [(''strongly like'', 5), (''like'', 4), (''neutral'', 3),
                        (''dislike'', 2), (''strongly dislike'', 1)]"

text \<open>
  The names that every object inherits from \<open>Object.prototype\<close>. \<open>baseScores\<close> is an
  object literal, so \<open>baseScores[reaction]\<close> finds its five own keys first, then these
  inherited members, and is \<open>undefined\<close> for every other label.
\<close>

definition objectPrototypeMembers :: "string list" where
  "objectPrototypeMembers =
     [''constructor'', ''__defineGetter__'', ''__defineSetter__'', ''hasOwnProperty'',
      ''__lookupGetter__'', ''__lookupSetter__'', ''isPrototypeOf'', ''propertyIsEnumerable'',
      ''toString'', ''valueOf'', ''__proto__'', ''toLocaleString'']"

definition lookupBaseScore :: "string \<Rightarrow> scoreValue option" where
  "lookupBaseScore label =
     (case baseScores label of
        Some b \<Rightarrow> Some (Number b)
      | None \<Rightarrow> if label \<in> set objectPrototypeMembers then Some (Inherited label) else None)"

text \<open>
  \<open>intensity || baseScores[reaction] || 3\<close>: an intensity that is missing or 0 falls through
  to the lookup (whose five numbers and inherited members are all truthy), and a label for
  which the lookup is \<open>undefined\<close> to 3.
\<close>

definition reactionToScore :: "string \<Rightarrow> real option \<Rightarrow> scoreValue" where
  "reactionToScore label i =
     (let byLabel = (case lookupBaseScore label of None \<Rightarrow> Number 3 | Some v \<Rightarrow> v)
      in case i of None \<Rightarrow> byLabel | Some x \<Rightarrow> if x = 0 then byLabel else Number x)"

definition calculateContentSimilarity :: "features \<Rightarrow> features \<Rightarrow> real" where
  "calculateContentSimilarity features1 features2 =
     (let genres = (if genre features1 = genre features2 then 1 else 0);
          eras = 1 - \<bar>era features1 - era features2\<bar> / 50;
          energy' = 1 - \<bar>energy features1 - energy features2\<bar>;
          valence' = 1 - \<bar>valence features1 - valence features2\<bar>;
          tempo' = 1 - \<bar>tempo features1 - tempo features2\<bar> / 100
      in genres * 0.3 + eras * 0.2 + energy' * 0.2 + valence' * 0.2 + tempo' * 0.1)"

text \<open>
  \<open>.sort((a, b) => b.score - a.score)\<close>: a stable sort, larger scores first, entries of equal
  score in their order of insertion.
\<close>

definition sortByScore :: "recommendation list \<Rightarrow> recommendation list" where
  "sortByScore rs = sort_key (\<lambda>r. - score r) rs"

subsection \<open>Strategies after a reaction\<close>

definition getSimilarTracks :: "(string \<times> features) list \<Rightarrow> features \<Rightarrow> nat \<Rightarrow> recommendation list" where
  "getSimilarTracks catalog targetFeatures count =
     (let similarities =
            map (\<lambda>(tid, fs). \<lparr>rec_trackId = tid,
                               score = calculateContentSimilarity targetFeatures fs,
                               reason = ''similar''\<rparr>) catalog
      in take count (drop 1 (sortByScore similarities)))"

definition getContrastingTracks :: "(string \<times> features) list \<Rightarrow> features \<Rightarrow> nat \<Rightarrow> recommendation list" where
  "getContrastingTracks catalog targetFeatures count =
     (let contrasts =
            map (\<lambda>(tid, fs). \<lparr>rec_trackId = tid,
                               score = 1 - calculateContentSimilarity targetFeatures fs,
                               reason = ''contrasting''\<rparr>) catalog
      in take count (sortByScore contrasts))"

text \<open>
  What \<open>getAdaptiveRecommendations\<close> returns: a list of a single strategy, or the combined
  list of \<open>getSessionRecommendations\<close>.
\<close>

datatype nextTracks = Single "recommendation list" | Combined "combinedRec list"

text \<open>
  \<open>getAdaptiveRecommendations(sessionId, profileId, lastReaction)\<close>. The two branches that
  leave the reacted track aside are parameters: \<open>sessionRecs\<close> is what
  \<open>getSessionRecommendations(sessionId, profileId)\<close> returns and \<open>diverseRecs\<close> what
  \<open>getDiverseRecommendations(sessionId, profileId, 5)\<close> returns (it draws random numbers).
\<close>

definition getAdaptiveRecommendations ::
  "combinedRec list \<Rightarrow> recommendation list \<Rightarrow> (string \<times> features) list \<Rightarrow> reactionData \<Rightarrow> nextTracks" where
  "getAdaptiveRecommendations sessionRecs diverseRecs catalog lastReaction =
     (case map_of catalog (trackId lastReaction) of
        None \<Rightarrow> Combined sessionRecs
      | Some fs \<Rightarrow>
          if reaction lastReaction = ''like'' \<or> reaction lastReaction = ''strongly like''
             \<or> intensity_ge (intensity lastReaction) 4
          then Single (getSimilarTracks catalog fs 5)
          else if reaction lastReaction = ''dislike'' \<or> reaction lastReaction = ''strongly dislike''
                  \<or> intensity_le (intensity lastReaction) 2
          then Single (getContrastingTracks catalog fs 5)
          else Single diverseRecs)"

subsection \<open>Combining the strategies\<close>

text \<open>One step of the inner loop of \<open>combineRecommendations\<close>, on the map \<open>combined\<close>.\<close>

definition addRecommendation ::
  "real \<Rightarrow> recommendation \<Rightarrow> (string \<times> combinedRec) list \<Rightarrow> (string \<times> combinedRec) list" where
  "addRecommendation weight rec combined =
     (case map_of combined (rec_trackId rec) of
        Some existing \<Rightarrow>
          AList.update (rec_trackId rec)
            (existing\<lparr>c_score := c_score existing + score rec * weight,
                       reasons := reasons existing @ [reason rec]\<rparr>) combined
      | None \<Rightarrow>
          AList.update (rec_trackId rec)
            \<lparr>c_trackId = rec_trackId rec, c_score = score rec * weight,
             reasons = [reason rec]\<rparr> combined)"

definition combineRecommendations :: "(recommendation list \<times> real) list \<Rightarrow> combinedRec list" where
  "combineRecommendations sources =
     (let combined = fold (\<lambda>(recommendations, weight) acc.
                              fold (addRecommendation weight) recommendations acc) sources []
      in sort_key (\<lambda>c. - c_score c) (map snd combined))"

text \<open>
  \<open>getSessionRecommendations\<close>, from the point where the three strategies have returned
  their lists.
\<close>

definition getSessionRecommendations ::
  "recommendation list \<Rightarrow> recommendation list \<Rightarrow> recommendation list \<Rightarrow> combinedRec list" where
  "getSessionRecommendations collaborativeRecs contentRecs contextRecs =
     take 10 (combineRecommendations
                [(collaborativeRecs, 0.4), (contentRecs, 0.4), (contextRecs, 0.2)])"

subsection \<open>Processing a reaction\<close>

definition updateUserPreferencesWithScore ::
  "string \<Rightarrow> string \<Rightarrow> scoreValue \<Rightarrow> engine \<Rightarrow> engine" where
  "updateUserPreferencesWithScore pid tid sc e =
     (let userPrefs = (case userPreferences e pid of None \<Rightarrow> Map.empty | Some up \<Rightarrow> up)
      in e\<lparr>userPreferences := (userPreferences e)(pid \<mapsto> userPrefs(tid \<mapsto> sc))\<rparr>)"

text \<open>
  \<open>processReaction(reactionData)\<close>: the tracks it answers with and the engine after the
  call. The answer's \<open>confidence\<close> and \<open>sessionMetrics\<close>, which only read the engine, are
  left out.
\<close>

definition processReaction ::
  "combinedRec list \<Rightarrow> recommendation list \<Rightarrow> string \<Rightarrow> reactionData \<Rightarrow> engine
     \<Rightarrow> nextTracks \<times> engine" where
  "processReaction sessionRecs diverseRecs sessionId rd e =
     (let sc = reactionToScore (reaction rd) (intensity rd);
          e1 = e\<lparr>realtimeReactions := realtimeReactions e @ [(sessionId, rd, sc)]\<rparr>;
          e2 = updateUserPreferencesWithScore (profileId rd) (trackId rd) sc e1
      in (getAdaptiveRecommendations sessionRecs diverseRecs (trackFeatures e2) rd, e2))"

text \<open>The stored score of a profile for a track, if any.\<close>

definition preferenceOf :: "engine \<Rightarrow> string \<Rightarrow> string \<Rightarrow> scoreValue option" where
  "preferenceOf e pid tid = (case userPreferences e pid of None \<Rightarrow> None | Some up \<Rightarrow> up tid)"

text \<open>
  The states of the engine that processing reactions leads to from the engine as
  constructed. The catalog is written by \<open>initializeEngine\<close> alone.
\<close>

inductive engineReachable :: "engine \<Rightarrow> bool" where
  engine_new: "engineReachable new_engine"
| engine_step: "engineReachable e \<Longrightarrow> engineReachable (snd (processReaction sr dr sid rd e))"

text \<open>The entry \<open>getSimilarTracks\<close> builds for a catalog track.\<close>

definition similarTo :: "features \<Rightarrow> string \<times> features \<Rightarrow> recommendation" where
  "similarTo targetFeatures = (\<lambda>(tid, fs). \<lparr>rec_trackId = tid,
      score = calculateContentSimilarity targetFeatures fs, reason = ''similar''\<rparr>)"

subsection \<open>The proposals behind a combined entry\<close>

text \<open>
  The proposals of all sources in the order the loops visit them, each with the weight of
  its source; those of them that name track \<open>t\<close>; and the combined entry they add up to.
\<close>

definition proposals :: "(recommendation list \<times> real) list \<Rightarrow> (recommendation \<times> real) list" where
  "proposals sources = concat (map (\<lambda>(recs, w). map (\<lambda>r. (r, w)) recs) sources)"

definition proposalsFor :: "string \<Rightarrow> (recommendation \<times> real) list \<Rightarrow> (recommendation \<times> real) list" where
  "proposalsFor t ps = filter (\<lambda>(r, w). rec_trackId r = t) ps"

definition combinedOf :: "string \<Rightarrow> (recommendation \<times> real) list \<Rightarrow> combinedRec" where
  "combinedOf t ps =
     \<lparr>c_trackId = t,
      c_score = sum_list (map (\<lambda>(r, w). score r * w) (proposalsFor t ps)),
      reasons = map (\<lambda>(r, w). reason r) (proposalsFor t ps)\<rparr>"

text \<open>The map \<open>combined\<close> after the proposals \<open>ps\<close> have gone through the inner loop.\<close>

definition combinedTable :: "(recommendation \<times> real) list \<Rightarrow> (string \<times> combinedRec) list" where
  "combinedTable ps = fold (\<lambda>(r, w). addRecommendation w r) ps []"

section \<open>Track model: \<open>trackSchema.methods.calculateSimilarity\<close> (src/models/Track.js)\<close>

record audioFeatures =
  t_energy :: real
  t_valence :: real
  t_tempo :: real
  t_acousticness :: real
  t_danceability :: real
  t_instrumentalness :: real

text \<open>The fields of a track document that \<open>calculateSimilarity\<close> reads; \<open>genre\<close>,
  \<open>artist\<close> and \<open>era\<close> are not required by the schema.\<close>

record track =
  t_genre :: "string option"
  t_artist :: "string option"
  t_era :: "real option"
  t_features :: audioFeatures

definition trackDistance :: "track \<Rightarrow> track \<Rightarrow> real" where
  "trackDistance this otherTrack =
     (let features1 = t_features this; features2 = t_features otherTrack;
          energyDiff = (t_energy features1 - t_energy features2) ^ 2;
          valenceDiff = (t_valence features1 - t_valence features2) ^ 2;
          tempoDiff = ((t_tempo features1 - t_tempo features2) / 100) ^ 2;
          acousticDiff = (t_acousticness features1 - t_acousticness features2) ^ 2;
          danceDiff = (t_danceability features1 - t_danceability features2) ^ 2
      in sqrt (energyDiff + valenceDiff + tempoDiff + acousticDiff + danceDiff))"

text \<open>\<open>Math.abs(this.era - otherTrack.era) <= 10\<close> is false when an era is missing.\<close>

definition eraWithin10 :: "real option \<Rightarrow> real option \<Rightarrow> bool" where
  "eraWithin10 a b = (case (a, b) of (Some x, Some y) \<Rightarrow> \<bar>x - y\<bar> \<le> 10 | _ \<Rightarrow> False)"

definition trackBoost :: "track \<Rightarrow> track \<Rightarrow> real" where
  "trackBoost this otherTrack =
     1 + (if t_genre this = t_genre otherTrack then 0.2 else 0)
       + (if t_artist this = t_artist otherTrack then 0.3 else 0)
       + (if eraWithin10 (t_era this) (t_era otherTrack) then 0.1 else 0)"

definition calculateSimilarity :: "track \<Rightarrow> track \<Rightarrow> real" where
  "calculateSimilarity this otherTrack =
     (let similarity = 1 / (1 + trackDistance this otherTrack)
      in min (similarity * trackBoost this otherTrack) 1)"

section \<open>The two transports that record a reaction\<close>

text \<open>
  The payload of a reaction as a client sends it: the body of
  \<open>POST /:sessionId/reaction\<close> (src/routes/sessions.js) and the \<open>USER_REACTION\<close> message of
  the WebSocket handler.
\<close>

record reactionMsg =
  msg_trackId :: string
  msg_reaction :: string
  msg_intensity :: "real option"
  msg_profileId :: string

text \<open>\<open>fastify.sessionManager\<close> and \<open>fastify.musicEngine\<close>.\<close>

record server =
  sessionManager :: manager
  musicEngine :: engine

text \<open>The body schema of the HTTP route: the \<open>enum\<close> of \<open>reaction\<close> and the bounds of
  \<open>intensity\<close>. A body that fails it is answered before the handler runs.\<close>

definition reactionSchema :: "reactionMsg \<Rightarrow> bool" where
  "reactionSchema body =
     (msg_reaction body \<in> set [''strongly dislike'', ''dislike'', ''neutral'', ''like'',
                                ''strongly like'']
      \<and> (case msg_intensity body of None \<Rightarrow> True | Some i \<Rightarrow> 1 \<le> i \<and> i \<le> 5))"

datatype 'a reply = BadRequest | Ok 'a

definition postReaction ::
  "clock \<Rightarrow> combinedRec list \<Rightarrow> recommendation list \<Rightarrow> string \<Rightarrow> reactionMsg \<Rightarrow> server
     \<Rightarrow> nextTracks reply \<times> server" where
  "postReaction now sessionRecs diverseRecs sessionId body srv =
     (if \<not> reactionSchema body then (BadRequest, srv)
      else
        (let rd = \<lparr>trackId = msg_trackId body, reaction = msg_reaction body,
                   intensity = msg_intensity body, profileId = msg_profileId body,
                   timestamp = now 0\<rparr>;
             m' = updateUserReaction (later 1 now) sessionId rd (sessionManager srv);
             (next, e') = processReaction sessionRecs diverseRecs sessionId rd (musicEngine srv)
         in (Ok next, \<lparr>sessionManager = m', musicEngine = e'\<rparr>)))"

text \<open>The \<open>USER_REACTION\<close> branch of the WebSocket handler (src/unnamed/part_000), after
  the debounce: the engine first, with \<open>intensity || 3\<close>, then the manager.\<close>

definition wsUserReaction ::
  "clock \<Rightarrow> combinedRec list \<Rightarrow> recommendation list \<Rightarrow> string \<Rightarrow> reactionMsg \<Rightarrow> server
     \<Rightarrow> nextTracks \<times> server" where
  "wsUserReaction now sessionRecs diverseRecs sessionId msg srv =
     (let (next, e') =
            processReaction sessionRecs diverseRecs sessionId
              \<lparr>trackId = msg_trackId msg, reaction = msg_reaction msg,
               intensity = Some (case msg_intensity msg of None \<Rightarrow> 3
                                 | Some i \<Rightarrow> if i = 0 then 3 else i),
               profileId = msg_profileId msg, timestamp = now 0\<rparr> (musicEngine srv);
          m' = updateUserReaction (later 2 now) sessionId
                 \<lparr>trackId = msg_trackId msg, reaction = msg_reaction msg,
                  intensity = msg_intensity msg, profileId = msg_profileId msg,
                  timestamp = now 1\<rparr> (sessionManager srv)
      in (next, \<lparr>sessionManager = m', musicEngine = e'\<rparr>))"

section \<open>The manager's interface as one step function\<close>

text \<open>A call of one of the manager's mutating methods, and its effect on the manager (a
  failed \<open>joinSession\<close> leaves it as it is).\<close>

datatype operation =
    CreateSession string options
  | JoinSession string userInfo
  | LeaveSession string string
  | UpdateUserReaction string reactionData
  | UpdateCurrentTrack string trackInfo
  | EndSession string

fun perform :: "clock \<Rightarrow> operation \<Rightarrow> manager \<Rightarrow> manager" where
  "perform now (CreateSession uuid opts) m = snd (createSession now uuid opts m)"
| "perform now (JoinSession sid ui) m =
     (case joinSession now sid ui m of Inl e \<Rightarrow> m | Inr (s, m') \<Rightarrow> m')"
| "perform now (LeaveSession sid cid) m = leaveSession now sid cid m"
| "perform now (UpdateUserReaction sid rd) m = updateUserReaction now sid rd m"
| "perform now (UpdateCurrentTrack sid ti) m = updateCurrentTrack now sid ti m"
| "perform now (EndSession sid) m = endSession now sid m"

text \<open>Session \<open>k\<close>, if it is in the store, has a participant.\<close>

definition populated :: "manager \<Rightarrow> string \<Rightarrow> bool" where
  "populated m k = (case activeSessions m k of None \<Rightarrow> True | Some s \<Rightarrow> participants s \<noteq> [])"

text \<open>
  Whether a \<open>joinSession\<close> on session \<open>sid\<close> has succeeded since the session was last
  created, read off the events emitted so far: \<open>SESSION_CREATED\<close> of the session resets
  the answer, \<open>USER_JOINED\<close> of the session sets it.
\<close>

fun afterEvent :: "string \<Rightarrow> event \<Rightarrow> bool \<Rightarrow> bool" where
  "afterEvent sid (SESSION_CREATED i t) b = (if i = sid then False else b)"
| "afterEvent sid (USER_JOINED i u p t) b = (if i = sid then True else b)"
| "afterEvent sid (USER_LEFT i u t) b = b"
| "afterEvent sid (TRACK_CHANGED i ti t) b = b"
| "afterEvent sid (SESSION_ENDED i t ms) b = b"

definition joinedSinceCreated :: "string \<Rightarrow> event list \<Rightarrow> bool" where
  "joinedSinceCreated sid evs = fold (afterEvent sid) evs False"

text \<open>The states of the manager that calls of its methods lead to from the new manager.\<close>

inductive reachable :: "manager \<Rightarrow> bool" where
  reachable_new: "reachable new_manager"
| reachable_step: "reachable m \<Longrightarrow> reachable (perform now op m)"

text \<open>A stored session has no participant exactly when it has not been joined since it was
  created.\<close>

definition emptyIffUnjoined :: "manager \<Rightarrow> bool" where
  "emptyIffUnjoined m =
     (\<forall>sid s. activeSessions m sid = Some s \<longrightarrow>
        (participants s = [] \<longleftrightarrow> \<not> joinedSinceCreated sid (sessionEvents m)))"

text \<open>The test of the loop of \<open>leaveSession\<close>, on an entry of the participants.\<close>

definition sameConnection :: "string \<Rightarrow> string \<times> participant \<Rightarrow> bool" where
  "sameConnection c = (\<lambda>(u, p). connectionId p = c)"

section \<open>Example states\<close>

definition ex_now :: clock where
  "ex_now = (\<lambda>k. 1000 + int k)"

definition ex_opts :: options where
  "ex_opts = \<lparr>o_sessionId = Some ''s1'', o_settings = None\<rparr>"

definition ex_s1 :: session where
  "ex_s1 = fst (createSession ex_now ''uuid'' ex_opts new_manager)"

text \<open>A manager in which session \<open>s1\<close> has just been created.\<close>

definition ex_m1 :: manager where
  "ex_m1 = snd (createSession ex_now ''uuid'' ex_opts new_manager)"

definition ex_ui :: userInfo where
  "ex_ui = \<lparr>u_userId = ''u1'', u_profileId = ''p1'', u_connectionId = ''c1''\<rparr>"

text \<open>The manager after user \<open>u1\<close> (profile \<open>p1\<close>, connection \<open>c1\<close>) has joined \<open>s1\<close>.\<close>

definition ex_m2 :: manager where
  "ex_m2 = (case joinSession ex_now ''s1'' ex_ui ex_m1 of Inr (s, m) \<Rightarrow> m | Inl e \<Rightarrow> ex_m1)"

text \<open>A reaction of a profile that is in no session.\<close>

definition ex_rd :: reactionData where
  "ex_rd = \<lparr>trackId = ''track1'', reaction = ''like'', intensity = None, profileId = ''p9'',
            timestamp = 2000\<rparr>"

definition ex_like :: reactionData where
  "ex_like = \<lparr>trackId = ''track1'', reaction = ''strongly like'', intensity = None,
              profileId = ''p1'', timestamp = 2000\<rparr>"

definition ex_r :: reactionData where
  "ex_r = \<lparr>trackId = ''track1'', reaction = ''like'', intensity = None, profileId = ''p1'',
           timestamp = 0\<rparr>"

text \<open>Two tracks that differ in acousticness only.\<close>

definition ex_track :: track where
  "ex_track = \<lparr>t_genre = Some ''jazz'', t_artist = Some ''a'', t_era = Some 1950,
     t_features = \<lparr>t_energy = 0.5, t_valence = 0.5, t_tempo = 120, t_acousticness = 0,
                   t_danceability = 0.5, t_instrumentalness = 0.5\<rparr>\<rparr>"

definition ex_track' :: track where
  "ex_track' = ex_track\<lparr>t_features := (t_features ex_track)\<lparr>t_acousticness := 1\<rparr>\<rparr>"

text \<open>A second user joins \<open>s1\<close> over the same connection \<open>c1\<close>.\<close>

definition ex_ui2 :: userInfo where
  "ex_ui2 = \<lparr>u_userId = ''u2'', u_profileId = ''p2'', u_connectionId = ''c1''\<rparr>"

definition ex_m3 :: manager where
  "ex_m3 = (case joinSession ex_now ''s1'' ex_ui2 ex_m2 of Inr (s, m) \<Rightarrow> m | Inl e \<Rightarrow> ex_m2)"

text \<open>Strategy lists: a collaborative list that proposes one track twice (two similar
  users rated it), a content list and a contextual list.\<close>

definition ex_collab_dup :: "recommendation list" where
  "ex_collab_dup = [\<lparr>rec_trackId = ''track1'', score = 4.5, reason = ''collaborative''\<rparr>,
                    \<lparr>rec_trackId = ''track1'', score = 3.2, reason = ''collaborative''\<rparr>]"

definition ex_content :: "recommendation list" where
  "ex_content = [\<lparr>rec_trackId = ''track1'', score = 0.9, reason = ''content''\<rparr>]"

definition ex_context :: "recommendation list" where
  "ex_context = [\<lparr>rec_trackId = ''track1'', score = 0.5, reason = ''contextual''\<rparr>,
                 \<lparr>rec_trackId = ''track2'', score = 0.7, reason = ''contextual''\<rparr>]"

text \<open>The features of \<open>track1\<close> in the initial catalog.\<close>

definition ex_f1 :: features where
  "ex_f1 = \<lparr>genre = ''classical'', era = 1960, energy = 0.3, valence = 0.7, tempo = 80\<rparr>"

text \<open>A catalog in which two tracks have the same features, and a reaction to the
  second of them.\<close>

definition ex_features :: features where
  "ex_features = \<lparr>genre = ''jazz'', era = 1950, energy = 0.5, valence = 0.5, tempo = 120\<rparr>"

definition ex_twin_catalog :: "(string \<times> features) list" where
  "ex_twin_catalog = [(''a'', ex_features), (''b'', ex_features)]"

definition ex_like_b :: reactionData where
  "ex_like_b = \<lparr>trackId = ''b'', reaction = ''strongly like'', intensity = None,
                profileId = ''p1'', timestamp = 2000\<rparr>"

text \<open>A reaction payload with an unknown label and an intensity of 9, the server it is
  sent to, and the reaction the manager records for it.\<close>

definition ex_bad_msg :: reactionMsg where
  "ex_bad_msg = \<lparr>msg_trackId = ''track1'', msg_reaction = ''meh'', msg_intensity = Some 9,
                 msg_profileId = ''p1''\<rparr>"

definition ex_srv :: server where
  "ex_srv = \<lparr>sessionManager = ex_m2, musicEngine = new_engine\<rparr>"

definition ex_bad_rd :: reactionData where
  "ex_bad_rd = \<lparr>trackId = ''track1'', reaction = ''meh'', intensity = Some 9,
                profileId = ''p1'', timestamp = 1001\<rparr>"

section \<open>Properties of the session manager\<close>

lemma ex_m1_s1: "activeSessions ex_m1 ''s1'' = Some ex_s1"
  by (simp add: ex_m1_def ex_s1_def createSession_def ex_opts_def new_manager_def truthy_def Let_def)

lemma ex_m1_zz: "activeSessions ex_m1 ''zz'' = None"
  by (simp add: ex_m1_def createSession_def ex_opts_def new_manager_def truthy_def Let_def)

text \<open>
  C7. \<open>joinSession(sessionId, userInfo)\<close> fails with \<open>SessionNotFound\<close> exactly when the
  session id is absent from the store; the failure is raised before anything is written, so
  the manager stays as it was. When the session exists the call succeeds: the participant
  keyed by \<open>userInfo.userId\<close> is added or overwritten with the join timestamp, the other
  participants and the other fields of the session stay, the user-to-session index maps the
  user id to the session id, and the session is returned.
\<close>

theorem joinSession_spec:
  "((\<exists>e. joinSession now sid ui m = Inl e) \<longleftrightarrow> activeSessions m sid = None)
   \<and> (activeSessions m sid = None \<longrightarrow> joinSession now sid ui m = Inl (SessionNotFound sid))
   \<and> (\<forall>s. activeSessions m sid = Some s \<longrightarrow>
        (\<exists>s' m'. joinSession now sid ui m = Inr (s', m')
           \<and> map_of (participants s') (u_userId ui)
               = Some \<lparr>userId = u_userId ui, p_profileId = u_profileId ui,
                       connectionId = u_connectionId ui, joinedAt = now 0,
                       p_reactions = [], currentEngagement = 0, totalListeningTime = 0\<rparr>
           \<and> (\<forall>u. u \<noteq> u_userId ui \<longrightarrow>
                  map_of (participants s') u = map_of (participants s) u)
           \<and> s' = s\<lparr>participants := participants s'\<rparr>
           \<and> userSessions m' (u_userId ui) = Some sid
           \<and> (\<forall>u. u \<noteq> u_userId ui \<longrightarrow> userSessions m' u = userSessions m u)
           \<and> activeSessions m' sid = Some s'
           \<and> (\<forall>k. k \<noteq> sid \<longrightarrow> activeSessions m' k = activeSessions m k)
           \<and> sessionEvents m' = sessionEvents m @
                 [USER_JOINED sid (u_userId ui) (u_profileId ui) (now 1)]))"
  by (auto simp: joinSession_def Let_def update_conv' split: option.splits)

theorem joinSession_spec_witness:
  "activeSessions ex_m1 ''s1'' \<noteq> None \<and> activeSessions ex_m1 ''zz'' = None
   \<and> joinSession ex_now ''zz'' ex_ui ex_m1 = Inl (SessionNotFound ''zz'')
   \<and> (\<exists>s' m'. joinSession ex_now ''s1'' ex_ui ex_m1 = Inr (s', m')
        \<and> userSessions m' (u_userId ex_ui) = Some ''s1''
        \<and> map_of (participants s') (u_userId ex_ui) \<noteq> None)"
  using joinSession_spec [of ex_now "''s1''" ex_ui ex_m1]
    joinSession_spec [of ex_now "''zz''" ex_ui ex_m1] ex_m1_s1 ex_m1_zz
  by auto

lemma ex_m2_s1:
  "activeSessions ex_m2 ''s1'' = Some (ex_s1\<lparr>participants :=
     [(''u1'', \<lparr>userId = ''u1'', p_profileId = ''p1'', connectionId = ''c1'', joinedAt = 1000,
        p_reactions = [], currentEngagement = 0, totalListeningTime = 0\<rparr>)]\<rparr>)"
  by (simp add: ex_m2_def joinSession_def ex_m1_s1 ex_ui_def Let_def ex_s1_def createSession_def
       ex_opts_def truthy_def ex_now_def)

lemma updateParticipant_no_match:
  "\<forall>(u, p) \<in> set ps. p_profileId p \<noteq> profileId rd \<Longrightarrow> updateParticipant t rd ps = ps"
  by (induction ps) auto

text \<open>
  C10. When a reaction is recorded on an existing session and its profile id is the profile
  id of no current participant, the reaction is still appended to the session's reaction
  list, the session's positive or negative counter is still incremented as the reaction
  demands, and the average engagement is still recomputed (the mean of the participants'
  engagement scores, 0 without participants), while every participant, with its own
  reaction list and engagement score, is left as it was.
\<close>

theorem reaction_of_unknown_profile:
  assumes "activeSessions m sid = Some s"
    and "\<forall>(u, p) \<in> set (participants s). p_profileId p \<noteq> profileId rd"
  shows "\<exists>s'. activeSessions (updateUserReaction now sid rd m) sid = Some s'
      \<and> s_reactions s' = s_reactions s @ [rd]
      \<and> participants s' = participants s
      \<and> positiveReactions (s_metrics s')
          = positiveReactions (s_metrics s) + (if isPositive rd then 1 else 0)
      \<and> negativeReactions (s_metrics s')
          = negativeReactions (s_metrics s) + (if \<not> isPositive rd \<and> isNegative rd then 1 else 0)
      \<and> averageEngagement (s_metrics s')
          = (if participants s = [] then 0
             else sum_list (map (\<lambda>(u, p). currentEngagement p) (participants s))
                  / real (length (participants s)))"
  using assms
  by (simp add: updateUserReaction_def updateSessionMetrics_def Let_def meanEngagement_def
      participantEngagements_def updateParticipant_no_match)

theorem reaction_of_unknown_profile_witness:
  "(\<exists>s. activeSessions ex_m2 ''s1'' = Some s
        \<and> (\<forall>(u, p) \<in> set (participants s). p_profileId p \<noteq> profileId ex_rd)
        \<and> participants s \<noteq> [])
   \<and> (\<exists>s'. activeSessions (updateUserReaction ex_now ''s1'' ex_rd ex_m2) ''s1'' = Some s'
        \<and> s_reactions s' = [ex_rd]
        \<and> positiveReactions (s_metrics s') = 1
        \<and> negativeReactions (s_metrics s') = 0
        \<and> averageEngagement (s_metrics s') = 0)"
proof -
  let ?s = "ex_s1\<lparr>participants :=
     [(''u1'', \<lparr>userId = ''u1'', p_profileId = ''p1'', connectionId = ''c1'', joinedAt = 1000,
        p_reactions = [], currentEngagement = 0, totalListeningTime = 0\<rparr>)]\<rparr>"
  have a: "\<forall>(u, p) \<in> set (participants ?s). p_profileId p \<noteq> profileId ex_rd"
    by (simp add: ex_rd_def)
  have pos: "isPositive ex_rd" by (simp add: isPositive_def ex_rd_def)
  from reaction_of_unknown_profile [OF ex_m2_s1 a, of ex_now]
  obtain s' where "activeSessions (updateUserReaction ex_now ''s1'' ex_rd ex_m2) ''s1'' = Some s'"
    and "s_reactions s' = s_reactions ?s @ [ex_rd]"
    and "positiveReactions (s_metrics s')
          = positiveReactions (s_metrics ?s) + (if isPositive ex_rd then 1 else 0)"
    and "negativeReactions (s_metrics s')
          = negativeReactions (s_metrics ?s)
            + (if \<not> isPositive ex_rd \<and> isNegative ex_rd then 1 else 0)"
    and "averageEngagement (s_metrics s')
          = (if participants ?s = [] then 0
             else sum_list (map (\<lambda>(u, p). currentEngagement p) (participants ?s))
                  / real (length (participants ?s)))"
    by blast
  then show ?thesis using ex_m2_s1 a pos
    by (simp add: ex_s1_def createSession_def Let_def)
qed

subsection \<open>Engagement\<close>

lemma exp_two_thirds_lower: "(51 / 100 :: real) < exp (- (2/3))"
proof -
  have "exp (- (2/3) :: real) = exp (of_nat 64 * (- (1/96)))" by simp
  also have "\<dots> = exp (- (1/96)) ^ 64" by (rule exp_of_nat_mult)
  finally have e: "exp (- (2/3) :: real) = exp (- (1/96)) ^ 64" .
  have "(1::real) + (- (1/96)) \<le> exp (- (1/96))" by (rule exp_ge_add_one_self)
  then have "(95/96 :: real) \<le> exp (- (1/96))" by simp
  then have "(95/96 :: real) ^ 64 \<le> exp (- (1/96)) ^ 64"
    by (intro power_mono) simp_all
  moreover have "(51 / 100 :: real) < (95/96) ^ 64" by (simp add: power_divide)
  ultimately show ?thesis using e by linarith
qed

lemma exp_two_thirds_upper: "exp (- (2/3)) < (257 / 500 :: real)"
proof -
  have "exp (2/3 :: real) = exp (of_nat 8 * (1/12))" by simp
  also have "\<dots> = exp (1/12) ^ 8" by (rule exp_of_nat_mult)
  finally have e: "exp (2/3 :: real) = exp (1/12) ^ 8" .
  have "(1::real) + (1/12) + (1/12)\<^sup>2 / 2 \<le> exp (1/12)"
    by (rule exp_lower_Taylor_quadratic) simp
  then have "(313/288 :: real) \<le> exp (1/12)" by (simp add: power2_eq_square)
  then have "(313/288 :: real) ^ 8 \<le> exp (1/12) ^ 8"
    by (intro power_mono) simp_all
  moreover have "(500 / 257 :: real) < (313/288) ^ 8" by (simp add: power_divide)
  ultimately have "(500 / 257 :: real) < exp (2/3)" using e by linarith
  then have "1 / exp (2/3) < 1 / (500 / 257 :: real)"
    by (intro divide_strict_left_mono) simp_all
  then show ?thesis by (simp add: exp_minus inverse_eq_divide)
qed

lemma sum_list_map_cong_on:
  "(\<And>x. x \<in> set xs \<Longrightarrow> f x = g x) \<Longrightarrow> sum_list (map f xs) = sum_list (map g xs)"
  by (induction xs) auto

text \<open>
  C4, as the claim states it, fails: an intensity that is present and 0 does not count as 0.
  For the single reaction \<open>{intensity: 0, t = 0}\<close> evaluated at time 0 the code gives 3,
  where the claimed formula gives 0.
\<close>

theorem calculateEngagement_zero_counterexample:
  "calculateEngagement 0 [ex_r\<lparr>intensity := Some 0\<rparr>] = 3
   \<and> (\<Sum>r\<leftarrow>[ex_r\<lparr>intensity := Some 0\<rparr>].
          (case intensity r of None \<Rightarrow> 3 | Some i \<Rightarrow> i)
          * exp (- real_of_int (0 - timestamp r) / 300000))
       / real (length [ex_r\<lparr>intensity := Some 0\<rparr>]) = 0"
  by (simp add: calculateEngagement_def intensityScore_def ageWeight_def ex_r_def)

text \<open>
  C4, amended. For a participant with a non-empty reaction list, evaluated at time \<open>now\<close>,
  the engagement score is the sum of \<open>intensity * exp (- (now - t) / 300000)\<close> over the
  reactions divided by their number, where an intensity that is absent or 0 counts as 3; for
  the empty list it is 0; and the reactions
  \<open>[{intensity: 5, t = 0}, {intensity: 1, t = 200000}]\<close> evaluated at \<open>200000\<close> give a score
  within 0.005 of 1.78.
\<close>

theorem calculateEngagement_formula:
  "(rs \<noteq> [] \<longrightarrow>
      calculateEngagement now rs
        = (\<Sum>r\<leftarrow>rs. (case intensity r of None \<Rightarrow> 3 | Some i \<Rightarrow> if i = 0 then 3 else i)
                     * exp (- real_of_int (now - timestamp r) / 300000))
          / real (length rs))
   \<and> calculateEngagement now [] = 0
   \<and> \<bar>calculateEngagement 200000 [r1\<lparr>intensity := Some 5, timestamp := 0\<rparr>,
                                     r2\<lparr>intensity := Some 1, timestamp := 200000\<rparr>] - 178 / 100\<bar>
       < 5 / 1000"
proof (intro conjI impI)
  assume a: "rs \<noteq> []"
  have "sum_list (map (\<lambda>r. intensityScore r * ageWeight now r) rs)
        = sum_list (map (\<lambda>r. (case intensity r of None \<Rightarrow> 3 | Some i \<Rightarrow> if i = 0 then 3 else i)
                     * exp (- real_of_int (now - timestamp r) / 300000)) rs)"
    by (intro sum_list_map_cong_on) (simp add: intensityScore_def ageWeight_def)
  then show "calculateEngagement now rs
        = (\<Sum>r\<leftarrow>rs. (case intensity r of None \<Rightarrow> 3 | Some i \<Rightarrow> if i = 0 then 3 else i)
                     * exp (- real_of_int (now - timestamp r) / 300000))
          / real (length rs)"
    using a by (simp add: calculateEngagement_def)
next
  show "calculateEngagement now [] = 0" by (simp add: calculateEngagement_def)
next
  have eq: "calculateEngagement 200000 [r1\<lparr>intensity := Some 5, timestamp := 0\<rparr>,
                                     r2\<lparr>intensity := Some 1, timestamp := 200000\<rparr>]
        = (5 * exp (- (2/3)) + 1) / 2"
    by (simp add: calculateEngagement_def intensityScore_def ageWeight_def)
  show "\<bar>calculateEngagement 200000 [r1\<lparr>intensity := Some 5, timestamp := 0\<rparr>,
                                     r2\<lparr>intensity := Some 1, timestamp := 200000\<rparr>] - 178 / 100\<bar>
       < 5 / 1000"
  proof -
    define x :: real where "x = exp (- (2/3))"
    have l: "51 / 100 < x" and u: "x < 257 / 500"
      using exp_two_thirds_lower exp_two_thirds_upper by (simp_all add: x_def)
    have "(5 * x + 1) / 2 - 178 / 100 < 5 / 1000"
      and "- ((5 * x + 1) / 2 - 178 / 100) < 5 / 1000"
      using l u by simp_all
    then have "\<bar>(5 * x + 1) / 2 - 178 / 100\<bar> < 5 / 1000"
      by (rule abs_less_iff [THEN iffD2, OF conjI])
    then show ?thesis unfolding eq x_def by simp
  qed
qed

theorem calculateEngagement_formula_witness:
  "[ex_r, ex_r\<lparr>intensity := Some 4\<rparr>, ex_r\<lparr>intensity := Some 0\<rparr>] \<noteq> []
   \<and> calculateEngagement 0 [ex_r, ex_r\<lparr>intensity := Some 4\<rparr>, ex_r\<lparr>intensity := Some 0\<rparr>]
       = 10 / 3"
  using calculateEngagement_formula
    [of "[ex_r, ex_r\<lparr>intensity := Some 4\<rparr>, ex_r\<lparr>intensity := Some 0\<rparr>]" 0 ex_r ex_r]
  by (simp add: ex_r_def)

section \<open>Properties of the recommendation engine\<close>




section \<open>Properties of the track model\<close>

lemma trackBoost_ge_1: "1 \<le> trackBoost a b"
  by (simp add: trackBoost_def)

text \<open>
  C8, as the claim states it, fails: two tracks with the same genre, artist, era, energy,
  valence and tempo whose acousticness differs by 1 have distance 1, hence similarity
  \<open>1/2\<close>, boost \<open>1.6\<close> and result \<open>0.8\<close>.
\<close>

theorem calculateSimilarity_counterexample:
  "t_genre ex_track = t_genre ex_track' \<and> t_era ex_track = t_era ex_track'
   \<and> t_artist ex_track = t_artist ex_track'
   \<and> t_energy (t_features ex_track) = t_energy (t_features ex_track')
   \<and> t_valence (t_features ex_track) = t_valence (t_features ex_track')
   \<and> t_tempo (t_features ex_track) = t_tempo (t_features ex_track')
   \<and> calculateSimilarity ex_track ex_track' = 4 / 5
   \<and> calculateSimilarity ex_track ex_track' \<noteq> 1"
  by (simp add: ex_track_def ex_track'_def calculateSimilarity_def trackDistance_def
      trackBoost_def eraWithin10_def Let_def)

text \<open>
  C8, amended. For every pair of tracks whose energy, valence, tempo, acousticness and
  danceability are all equal, which are the five features the distance is taken over, the
  track-to-track similarity is exactly 1, whatever their genre, artist and era.
\<close>

theorem calculateSimilarity_equal_features:
  assumes "t_energy (t_features a) = t_energy (t_features b)"
    and "t_valence (t_features a) = t_valence (t_features b)"
    and "t_tempo (t_features a) = t_tempo (t_features b)"
    and "t_acousticness (t_features a) = t_acousticness (t_features b)"
    and "t_danceability (t_features a) = t_danceability (t_features b)"
  shows "calculateSimilarity a b = 1"
  using assms trackBoost_ge_1 [of a b]
  by (simp add: calculateSimilarity_def trackDistance_def Let_def)

theorem calculateSimilarity_equal_features_witness:
  "t_acousticness (t_features ex_track) = t_acousticness (t_features ex_track)
   \<and> calculateSimilarity ex_track ex_track = 1
   \<and> calculateSimilarity ex_track (ex_track\<lparr>t_genre := None, t_artist := None, t_era := None\<rparr>) = 1"
  using calculateSimilarity_equal_features [of ex_track ex_track]
    calculateSimilarity_equal_features
      [of ex_track "ex_track\<lparr>t_genre := None, t_artist := None, t_era := None\<rparr>"]
  by simp

section \<open>Leaving a session\<close>

lemma findByConnection_None_iff:
  "findByConnection ps c = None \<longleftrightarrow> filter (sameConnection c) ps = []"
  by (induction ps) (auto simp: sameConnection_def)

lemma filter_delete_subset:
  "filter P ps = [] \<Longrightarrow> filter P (AList.delete u ps) = []"
  by (induction ps) (auto simp: AList.delete_eq)

lemma findByConnection_after_delete:
  "findByConnection ps c = Some u \<Longrightarrow> length (filter (sameConnection c) ps) \<le> 1
   \<Longrightarrow> findByConnection (AList.delete u ps) c = None"
proof (induction ps)
  case Nil
  then show ?case by simp
next
  case (Cons a ps)
  obtain u' p where a: "a = (u', p)" by (cases a)
  show ?case
  proof (cases "connectionId p = c")
    case True
    with Cons.prems a have "u' = u" and "filter (sameConnection c) ps = []"
      by (auto simp: sameConnection_def)
    then show ?thesis using a
      by (simp add: findByConnection_None_iff filter_delete_subset)
  next
    case False
    with Cons a show ?thesis by (auto simp: sameConnection_def)
  qed
qed

lemma endSession_absent: "activeSessions (endSession now sid m) sid = None"
  by (simp add: endSession_def split: option.splits)

text \<open>
  C6, amended. When at most one participant of the session carries the connection id,
  a second \<open>leaveSession(sessionId, connectionId)\<close> right after the first leaves exactly the
  state the first produced: session table, participants, user-to-session index and emitted
  events are all as they were. The call is likewise a silent no-op when the session is
  unknown and when no participant of the session carries the connection id.
\<close>

theorem leaveSession_idempotent:
  "((\<forall>s. activeSessions m sid = Some s \<longrightarrow>
        length (filter (sameConnection cid) (participants s)) \<le> 1)
    \<longrightarrow> leaveSession now' sid cid (leaveSession now sid cid m) = leaveSession now sid cid m)
   \<and> (activeSessions m sid = None \<longrightarrow> leaveSession now sid cid m = m)
   \<and> (\<forall>s. activeSessions m sid = Some s \<and> filter (sameConnection cid) (participants s) = []
          \<longrightarrow> leaveSession now sid cid m = m)"
proof (intro conjI impI allI)
  assume h: "\<forall>s. activeSessions m sid = Some s \<longrightarrow>
        length (filter (sameConnection cid) (participants s)) \<le> 1"
  show "leaveSession now' sid cid (leaveSession now sid cid m) = leaveSession now sid cid m"
  proof (cases "activeSessions m sid")
    case None
    then show ?thesis by (simp add: leaveSession_def)
  next
    case (Some s)
    show ?thesis
    proof (cases "findByConnection (participants s) cid")
      case None
      with Some show ?thesis by (simp add: leaveSession_def)
    next
      case found: (Some u)
      show ?thesis
      proof (cases "truthy u")
        case False
        with Some found show ?thesis by (simp add: leaveSession_def)
      next
        case True
        let ?s' = "s\<lparr>participants := AList.delete u (participants s)\<rparr>"
        let ?m' = "m\<lparr>activeSessions := (activeSessions m)(sid \<mapsto> ?s'),
                      userSessions := (userSessions m)(u := None),
                      sessionEvents := sessionEvents m @ [USER_LEFT sid u (now 0)]\<rparr>"
        have gone: "findByConnection (participants ?s') cid = None"
          using findByConnection_after_delete [OF found] h Some by simp
        show ?thesis
        proof (cases "AList.delete u (participants s) = []")
          case True
          have once: "leaveSession now sid cid m = endSession (later 1 now) sid ?m'"
            using Some found \<open>truthy u\<close> True by (simp add: leaveSession_def Let_def)
          show ?thesis unfolding once
            by (simp add: leaveSession_def endSession_absent)
        next
          case False
          have once: "leaveSession now sid cid m = ?m'"
            using Some found \<open>truthy u\<close> False by (simp add: leaveSession_def Let_def)
          show ?thesis unfolding once using gone
            by (simp add: leaveSession_def)
        qed
      qed
    qed
  qed
next
  assume "activeSessions m sid = None"
  then show "leaveSession now sid cid m = m" by (simp add: leaveSession_def)
next
  fix s
  assume "activeSessions m sid = Some s \<and> filter (sameConnection cid) (participants s) = []"
  then show "leaveSession now sid cid m = m"
    by (simp add: leaveSession_def findByConnection_None_iff [symmetric])
qed

lemma ex_m3_s1:
  "activeSessions ex_m3 ''s1'' = Some (ex_s1\<lparr>participants :=
     [(''u1'', \<lparr>userId = ''u1'', p_profileId = ''p1'', connectionId = ''c1'', joinedAt = 1000,
        p_reactions = [], currentEngagement = 0, totalListeningTime = 0\<rparr>),
      (''u2'', \<lparr>userId = ''u2'', p_profileId = ''p2'', connectionId = ''c1'', joinedAt = 1000,
        p_reactions = [], currentEngagement = 0, totalListeningTime = 0\<rparr>)]\<rparr>)"
  by (simp add: ex_m3_def joinSession_def ex_m2_s1 ex_ui2_def Let_def ex_now_def)

lemma ex_m3_once:
  "activeSessions (leaveSession ex_now ''s1'' ''c1'' ex_m3) ''s1'' = Some (ex_s1\<lparr>participants :=
     [(''u2'', \<lparr>userId = ''u2'', p_profileId = ''p2'', connectionId = ''c1'', joinedAt = 1000,
        p_reactions = [], currentEngagement = 0, totalListeningTime = 0\<rparr>)]\<rparr>)"
  by (simp add: leaveSession_def ex_m3_s1 truthy_def Let_def AList.delete_eq)

text \<open>
  C6, as the claim states it, fails: when two participants of a session carry the same
  connection id, the first call removes the first of them and the second call removes the
  other one (and here ends the session).
\<close>

theorem leaveSession_twice_counterexample:
  "activeSessions (leaveSession ex_now ''s1'' ''c1'' ex_m3) ''s1'' \<noteq> None
   \<and> activeSessions (leaveSession ex_now ''s1'' ''c1'' (leaveSession ex_now ''s1'' ''c1'' ex_m3)) ''s1''
       = None
   \<and> leaveSession ex_now ''s1'' ''c1'' (leaveSession ex_now ''s1'' ''c1'' ex_m3)
       \<noteq> leaveSession ex_now ''s1'' ''c1'' ex_m3"
proof -
  have a: "activeSessions (leaveSession ex_now ''s1'' ''c1'' ex_m3) ''s1'' \<noteq> None"
    by (simp add: ex_m3_once)
  have b: "activeSessions (leaveSession ex_now ''s1'' ''c1'' (leaveSession ex_now ''s1'' ''c1'' ex_m3)) ''s1''
       = None"
    by (subst (1) leaveSession_def) (simp add: ex_m3_once truthy_def Let_def AList.delete_eq endSession_absent)
  from a b show ?thesis by metis
qed

theorem leaveSession_idempotent_witness:
  "(\<exists>s. activeSessions ex_m2 ''s1'' = Some s
        \<and> length (filter (sameConnection ''c1'') (participants s)) = 1)
   \<and> leaveSession ex_now ''s1'' ''c1'' ex_m2 \<noteq> ex_m2
   \<and> leaveSession ex_now ''s1'' ''c1'' (leaveSession ex_now ''s1'' ''c1'' ex_m2)
       = leaveSession ex_now ''s1'' ''c1'' ex_m2"
proof -
  have h: "\<forall>s. activeSessions ex_m2 ''s1'' = Some s \<longrightarrow>
        length (filter (sameConnection ''c1'') (participants s)) \<le> 1"
    by (simp add: ex_m2_s1 sameConnection_def)
  have e: "\<exists>s. activeSessions ex_m2 ''s1'' = Some s
        \<and> length (filter (sameConnection ''c1'') (participants s)) = 1"
    by (simp add: ex_m2_s1 sameConnection_def)
  have "activeSessions (leaveSession ex_now ''s1'' ''c1'' ex_m2) ''s1'' = None"
    by (simp add: leaveSession_def ex_m2_s1 truthy_def Let_def AList.delete_eq endSession_absent)
  then have ne: "leaveSession ex_now ''s1'' ''c1'' ex_m2 \<noteq> ex_m2"
    using ex_m2_s1 by auto
  from leaveSession_idempotent [of ex_m2 "''s1''" "''c1''" ex_now ex_now] h e ne
  show ?thesis by blast
qed

section \<open>Sessions without participants\<close>

lemma update_not_Nil: "AList.update k v al \<noteq> []"
  by (cases al) auto

lemma updateParticipant_Nil_iff: "updateParticipant t rd ps = [] \<longleftrightarrow> ps = []"
  by (cases ps) (auto split: if_splits)

lemma endSession_other: "k \<noteq> sid \<Longrightarrow> activeSessions (endSession now sid m) k = activeSessions m k"
  by (simp add: endSession_def split: option.splits)

lemma populated_leaveSession: "populated m k \<Longrightarrow> populated (leaveSession now sid cid m) k"
proof (cases "activeSessions m sid")
  case None
  assume "populated m k"
  with None show ?thesis by (simp add: leaveSession_def)
next
  case (Some s)
  assume p: "populated m k"
  show ?thesis
  proof (cases "findByConnection (participants s) cid")
    case None
    with Some p show ?thesis by (simp add: leaveSession_def)
  next
    case found: (Some u)
    show ?thesis
    proof (cases "truthy u \<and> AList.delete u (participants s) = []")
      case True
      then show ?thesis using Some found p
        by (cases "k = sid")
          (simp_all add: leaveSession_def Let_def populated_def endSession_absent endSession_other)
    next
      case False
      then show ?thesis using Some found p
        by (auto simp: leaveSession_def Let_def populated_def split: option.splits)
    qed
  qed
qed

lemma joinedSinceCreated_snoc:
  "joinedSinceCreated sid (evs @ es) = fold (afterEvent sid) es (joinedSinceCreated sid evs)"
  by (simp add: joinedSinceCreated_def)

lemma emptyIffUnjoined_new: "emptyIffUnjoined new_manager"
  by (simp add: emptyIffUnjoined_def new_manager_def)

lemma emptyIffUnjoined_createSession:
  "emptyIffUnjoined m \<Longrightarrow> emptyIffUnjoined (snd (createSession now uuid opts m))"
  by (auto simp: emptyIffUnjoined_def createSession_def Let_def joinedSinceCreated_snoc)

lemma emptyIffUnjoined_joinSession:
  "emptyIffUnjoined m \<Longrightarrow> joinSession now sid ui m = Inr (s, m') \<Longrightarrow> emptyIffUnjoined m'"
  by (auto simp: emptyIffUnjoined_def joinSession_def Let_def joinedSinceCreated_snoc
      update_not_Nil split: option.splits if_splits)

lemma emptyIffUnjoined_endSession:
  "emptyIffUnjoined m \<Longrightarrow> emptyIffUnjoined (endSession now sid m)"
  by (auto simp: emptyIffUnjoined_def endSession_def joinedSinceCreated_snoc
      split: option.splits if_splits)

lemma emptyIffUnjoined_leaveSession:
  assumes "emptyIffUnjoined m"
  shows "emptyIffUnjoined (leaveSession now sid cid m)"
proof (cases "activeSessions m sid")
  case None
  with assms show ?thesis by (simp add: leaveSession_def)
next
  case (Some s)
  show ?thesis
  proof (cases "findByConnection (participants s) cid")
    case None
    with Some assms show ?thesis by (simp add: leaveSession_def)
  next
    case found: (Some u)
    show ?thesis
    proof (cases "truthy u")
      case False
      with Some found assms show ?thesis by (simp add: leaveSession_def)
    next
      case True
      let ?s' = "s\<lparr>participants := AList.delete u (participants s)\<rparr>"
      let ?m' = "m\<lparr>activeSessions := (activeSessions m)(sid \<mapsto> ?s'),
                    userSessions := (userSessions m)(u := None),
                    sessionEvents := sessionEvents m @ [USER_LEFT sid u (now 0)]\<rparr>"
      show ?thesis
      proof (cases "AList.delete u (participants s) = []")
        case empty: True
        have once: "leaveSession now sid cid m = endSession (later 1 now) sid ?m'"
          using Some found True empty by (simp add: leaveSession_def Let_def)
        show ?thesis unfolding once using assms
          by (auto simp: emptyIffUnjoined_def endSession_def joinedSinceCreated_snoc
              split: if_splits)
      next
        case False
        have once: "leaveSession now sid cid m = ?m'"
          using Some found True False by (simp add: leaveSession_def Let_def)
        have "participants s \<noteq> []" using found by auto
        then show ?thesis unfolding once using assms Some False
          by (auto simp: emptyIffUnjoined_def joinedSinceCreated_snoc split: if_splits)
      qed
    qed
  qed
qed

lemma emptyIffUnjoined_updateUserReaction:
  "emptyIffUnjoined m \<Longrightarrow> emptyIffUnjoined (updateUserReaction now sid rd m)"
  by (auto simp: emptyIffUnjoined_def updateUserReaction_def updateSessionMetrics_def Let_def
      updateParticipant_Nil_iff split: option.splits if_splits)

lemma emptyIffUnjoined_updateCurrentTrack:
  "emptyIffUnjoined m \<Longrightarrow> emptyIffUnjoined (updateCurrentTrack now sid ti m)"
  by (auto simp: emptyIffUnjoined_def updateCurrentTrack_def Let_def joinedSinceCreated_snoc
      split: option.splits if_splits)

lemma emptyIffUnjoined_perform:
  "emptyIffUnjoined m \<Longrightarrow> emptyIffUnjoined (perform now op m)"
proof (cases op)
  case (JoinSession sid ui)
  assume "emptyIffUnjoined m"
  with JoinSession show ?thesis
    by (auto simp: emptyIffUnjoined_joinSession split: sum.splits)
qed (simp_all add: emptyIffUnjoined_createSession emptyIffUnjoined_leaveSession
      emptyIffUnjoined_updateUserReaction emptyIffUnjoined_updateCurrentTrack
      emptyIffUnjoined_endSession)

lemma reachable_emptyIffUnjoined: "reachable m \<Longrightarrow> emptyIffUnjoined m"
  by (induction rule: reachable.induct)
    (simp_all add: emptyIffUnjoined_new emptyIffUnjoined_perform)

text \<open>
  C1, as the claim states it, fails: right after \<open>createSession\<close> the new session is in the
  store and has no participant.
\<close>

theorem createSession_empty_counterexample:
  "activeSessions (snd (createSession ex_now ''uuid'' ex_opts new_manager)) ''s1'' = Some ex_s1
   \<and> participants ex_s1 = []"
proof
  show "activeSessions (snd (createSession ex_now ''uuid'' ex_opts new_manager)) ''s1'' = Some ex_s1"
    using ex_m1_s1 by (simp only: ex_m1_def)
  show "participants ex_s1 = []"
    by (simp add: ex_s1_def createSession_def Let_def)
qed

text \<open>
  C1, amended. In every reachable state of the manager a session that is in the store has
  no participant exactly when no \<open>joinSession\<close> on it has succeeded since it was created. So
  every stored session that has been joined has at least one participant; a session whose
  last participant a \<open>leaveSession\<close> removes is absent from the store right after that call,
  and one that is still in the store after a leave has a participant if it had one before. A
  session produced by \<open>createSession\<close> is in the store with no participant, the other
  sessions as they were, and it stays without participants until its first join, which puts a
  participant in it.
\<close>

theorem empty_iff_never_joined:
  "(reachable m \<and> activeSessions m sid = Some s \<longrightarrow>
      (participants s = [] \<longleftrightarrow> \<not> joinedSinceCreated sid (sessionEvents m)))
   \<and> (activeSessions m sid = Some s \<and> findByConnection (participants s) cid = Some u
        \<and> truthy u \<and> AList.delete u (participants s) = []
      \<longrightarrow> activeSessions (leaveSession now sid cid m) sid = None)
   \<and> (activeSessions m sid = Some s \<and> participants s \<noteq> []
        \<and> activeSessions (leaveSession now sid cid m) sid = Some s'
      \<longrightarrow> participants s' \<noteq> [])
   \<and> (createSession now uuid opts m = (s0, m0) \<longrightarrow>
        activeSessions m0 (s_id s0) = Some s0 \<and> participants s0 = []
        \<and> \<not> joinedSinceCreated (s_id s0) (sessionEvents m0)
        \<and> (\<forall>k. k \<noteq> s_id s0 \<longrightarrow> activeSessions m0 k = activeSessions m k))
   \<and> (joinSession now sid ui m = Inr (s1, m1) \<longrightarrow>
        activeSessions m1 sid = Some s1 \<and> participants s1 \<noteq> []
        \<and> joinedSinceCreated sid (sessionEvents m1))"
proof -
  have 1: "reachable m \<and> activeSessions m sid = Some s \<longrightarrow>
      (participants s = [] \<longleftrightarrow> \<not> joinedSinceCreated sid (sessionEvents m))"
    using reachable_emptyIffUnjoined [of m] by (simp add: emptyIffUnjoined_def)
  have 2: "activeSessions m sid = Some s \<and> findByConnection (participants s) cid = Some u
        \<and> truthy u \<and> AList.delete u (participants s) = []
      \<longrightarrow> activeSessions (leaveSession now sid cid m) sid = None"
    by (simp add: leaveSession_def Let_def endSession_absent)
  have 3: "activeSessions m sid = Some s \<and> participants s \<noteq> []
        \<and> activeSessions (leaveSession now sid cid m) sid = Some s'
      \<longrightarrow> participants s' \<noteq> []"
  proof
    assume a: "activeSessions m sid = Some s \<and> participants s \<noteq> []
        \<and> activeSessions (leaveSession now sid cid m) sid = Some s'"
    then have "populated m sid" by (simp add: populated_def)
    then have "populated (leaveSession now sid cid m) sid" by (rule populated_leaveSession)
    with a show "participants s' \<noteq> []" by (simp add: populated_def)
  qed
  have 4: "createSession now uuid opts m = (s0, m0) \<longrightarrow>
        activeSessions m0 (s_id s0) = Some s0 \<and> participants s0 = []
        \<and> \<not> joinedSinceCreated (s_id s0) (sessionEvents m0)
        \<and> (\<forall>k. k \<noteq> s_id s0 \<longrightarrow> activeSessions m0 k = activeSessions m k)"
    by (auto simp: createSession_def Let_def joinedSinceCreated_snoc)
  have 5: "joinSession now sid ui m = Inr (s1, m1) \<longrightarrow>
        activeSessions m1 sid = Some s1 \<and> participants s1 \<noteq> []
        \<and> joinedSinceCreated sid (sessionEvents m1)"
    by (auto simp: joinSession_def Let_def joinedSinceCreated_snoc update_not_Nil
        split: option.splits)
  from 1 2 3 4 5 show ?thesis by (intro conjI)
qed

lemma reachable_ex_m1: "reachable ex_m1"
proof -
  have "reachable (perform ex_now (CreateSession ''uuid'' ex_opts) new_manager)"
    by (rule reachable_step [OF reachable_new])
  then show ?thesis by (simp add: ex_m1_def)
qed

lemma reachable_ex_m2: "reachable ex_m2"
proof -
  have "reachable (perform ex_now (JoinSession ''s1'' ex_ui) ex_m1)"
    by (rule reachable_step [OF reachable_ex_m1])
  moreover have "perform ex_now (JoinSession ''s1'' ex_ui) ex_m1 = ex_m2"
    by (simp add: ex_m2_def split: sum.splits)
  ultimately show ?thesis by simp
qed

theorem empty_iff_never_joined_witness:
  "reachable ex_m1 \<and> activeSessions ex_m1 ''s1'' = Some ex_s1 \<and> participants ex_s1 = []
   \<and> \<not> joinedSinceCreated ''s1'' (sessionEvents ex_m1)
   \<and> reachable ex_m2
   \<and> (\<exists>s. activeSessions ex_m2 ''s1'' = Some s \<and> participants s \<noteq> []
          \<and> findByConnection (participants s) ''c1'' = Some ''u1''
          \<and> AList.delete ''u1'' (participants s) = [])
   \<and> truthy ''u1''
   \<and> joinedSinceCreated ''s1'' (sessionEvents ex_m2)
   \<and> activeSessions (leaveSession ex_now ''s1'' ''c1'' ex_m2) ''s1'' = None"
proof -
  have e: "participants ex_s1 = []" by (simp add: ex_s1_def createSession_def Let_def)
  let ?s = "ex_s1\<lparr>participants :=
     [(''u1'', \<lparr>userId = ''u1'', p_profileId = ''p1'', connectionId = ''c1'', joinedAt = 1000,
        p_reactions = [], currentEngagement = 0, totalListeningTime = 0\<rparr>)]\<rparr>"
  have p: "participants ?s \<noteq> []" "findByConnection (participants ?s) ''c1'' = Some ''u1''"
    "AList.delete ''u1'' (participants ?s) = []" "truthy ''u1''"
    by (simp_all add: AList.delete_eq truthy_def)
  from empty_iff_never_joined [of ex_m1 "''s1''" ex_s1] reachable_ex_m1 ex_m1_s1 e
  have 1: "\<not> joinedSinceCreated ''s1'' (sessionEvents ex_m1)" by blast
  from empty_iff_never_joined [of ex_m2 "''s1''" ?s "''c1''" "''u1''" ex_now]
    reachable_ex_m2 ex_m2_s1 p
  have 2: "joinedSinceCreated ''s1'' (sessionEvents ex_m2)"
    and 3: "activeSessions (leaveSession ex_now ''s1'' ''c1'' ex_m2) ''s1'' = None"
    by blast+
  from reachable_ex_m1 ex_m1_s1 e 1 reachable_ex_m2 ex_m2_s1 p 2 3 show ?thesis by blast
qed

section \<open>Properties of the combiner\<close>

lemma fold_sources_flat:
  "fold (\<lambda>(recs, w) acc. fold (addRecommendation w) recs acc) sources acc0
   = fold (\<lambda>(r, w). addRecommendation w r) (proposals sources) acc0"
proof (induction sources arbitrary: acc0)
  case Nil
  then show ?case by (simp add: proposals_def)
next
  case (Cons a sources)
  obtain recs w where a: "a = (recs, w)" by (cases a)
  have "fold (\<lambda>(r, w). addRecommendation w r) (map (\<lambda>r. (r, w)) recs) acc0
        = fold (addRecommendation w) recs acc0"
    by (simp add: fold_map comp_def)
  with Cons a show ?case by (simp add: proposals_def)
qed

lemma combineRecommendations_table:
  "combineRecommendations sources
   = sort_key (\<lambda>c. - c_score c) (map snd (combinedTable (proposals sources)))"
  by (simp add: combineRecommendations_def combinedTable_def fold_sources_flat)

lemma map_of_addRecommendation:
  "map_of (addRecommendation w r al) =
     (map_of al)(rec_trackId r \<mapsto>
        (case map_of al (rec_trackId r) of
           Some existing \<Rightarrow> existing\<lparr>c_score := c_score existing + score r * w,
                                      reasons := reasons existing @ [reason r]\<rparr>
         | None \<Rightarrow> \<lparr>c_trackId = rec_trackId r, c_score = score r * w, reasons = [reason r]\<rparr>))"
  by (simp add: addRecommendation_def update_conv' split: option.splits)

lemma distinct_addRecommendation:
  "distinct (map fst al) \<Longrightarrow> distinct (map fst (addRecommendation w r al))"
  by (simp add: addRecommendation_def distinct_update split: option.splits)

lemma combinedTable_snoc:
  "combinedTable (ps @ [(r, w)]) = addRecommendation w r (combinedTable ps)"
  by (simp add: combinedTable_def)

lemma distinct_combinedTable: "distinct (map fst (combinedTable ps))"
proof (induction ps rule: rev_induct)
  case Nil
  then show ?case by (simp add: combinedTable_def)
next
  case (snoc x xs)
  then show ?case by (cases x) (simp add: combinedTable_snoc distinct_addRecommendation)
qed

lemma map_of_combinedTable:
  "map_of (combinedTable ps) t
   = (if proposalsFor t ps = [] then None else Some (combinedOf t ps))"
proof (induction ps rule: rev_induct)
  case Nil
  then show ?case by (simp add: combinedTable_def proposalsFor_def)
next
  case (snoc x xs)
  obtain r w where x: "x = (r, w)" by (cases x)
  show ?case
  proof (cases "rec_trackId r = t")
    case True
    with snoc x show ?thesis
      by (simp add: combinedTable_snoc map_of_addRecommendation proposalsFor_def combinedOf_def)
  next
    case False
    with snoc x show ?thesis
      by (simp add: combinedTable_snoc map_of_addRecommendation proposalsFor_def combinedOf_def)
  qed
qed

lemma in_combinedTable:
  "x \<in> snd ` set (combinedTable ps)
   \<longleftrightarrow> proposalsFor (c_trackId x) ps \<noteq> [] \<and> x = combinedOf (c_trackId x) ps"
proof
  assume "x \<in> snd ` set (combinedTable ps)"
  then obtain t where "(t, x) \<in> set (combinedTable ps)" by auto
  then have "map_of (combinedTable ps) t = Some x"
    using distinct_combinedTable by simp
  then have ne: "proposalsFor t ps \<noteq> []" and x: "x = combinedOf t ps"
    by (auto simp: map_of_combinedTable split: if_splits)
  from x have "c_trackId x = t" by (simp add: combinedOf_def)
  with ne x show "proposalsFor (c_trackId x) ps \<noteq> [] \<and> x = combinedOf (c_trackId x) ps"
    by simp
next
  assume a: "proposalsFor (c_trackId x) ps \<noteq> [] \<and> x = combinedOf (c_trackId x) ps"
  then have "map_of (combinedTable ps) (c_trackId x) = Some x"
    by (simp add: map_of_combinedTable)
  then have "(c_trackId x, x) \<in> set (combinedTable ps)" by (rule map_of_SomeD)
  then show "x \<in> snd ` set (combinedTable ps)" by force
qed

lemma set_combineRecommendations:
  "set (combineRecommendations sources) = snd ` set (combinedTable (proposals sources))"
  by (simp add: combineRecommendations_table)

lemma combinedTable_key: "(t, x) \<in> set (combinedTable ps) \<Longrightarrow> c_trackId x = t"
proof -
  assume a: "(t, x) \<in> set (combinedTable ps)"
  then have "map_of (combinedTable ps) t = Some x" using distinct_combinedTable by simp
  then show ?thesis by (auto simp: map_of_combinedTable combinedOf_def split: if_splits)
qed

lemma map_c_trackId_combinedTable:
  "map (c_trackId \<circ> snd) (combinedTable ps) = map fst (combinedTable ps)"
  by (rule map_ext) (auto simp: combinedTable_key)

lemma distinct_map_sort_key: "distinct (map f (sort_key k xs)) = distinct (map f xs)"
  by (simp add: distinct_map)

lemma distinct_ids_combineRecommendations:
  "distinct (map c_trackId (combineRecommendations sources))"
proof -
  have "distinct (map (c_trackId \<circ> snd) (combinedTable (proposals sources)))"
    by (simp only: map_c_trackId_combinedTable distinct_combinedTable)
  then have d: "distinct (map c_trackId (map snd (combinedTable (proposals sources))))"
    by (simp only: map_map)
  show ?thesis
    unfolding combineRecommendations_table distinct_map_sort_key by (rule d)
qed

lemma sorted_combineRecommendations:
  "sorted_wrt (\<lambda>x y. c_score y \<le> c_score x) (combineRecommendations sources)"
proof -
  have "sorted (map (\<lambda>c. - c_score c) (combineRecommendations sources))"
    by (simp add: combineRecommendations_table)
  then show ?thesis by (simp add: sorted_map)
qed


lemma proposals_three:
  "proposals [(a, wa), (b, wb), (c, wc)]
   = map (\<lambda>r. (r, wa)) a @ map (\<lambda>r. (r, wb)) b @ map (\<lambda>r. (r, wc)) c"
  by (simp add: proposals_def)

lemma ids_combineRecommendations:
  "c_trackId ` set (combineRecommendations sources) = rec_trackId ` fst ` set (proposals sources)"
proof (intro set_eqI iffI)
  fix t
  assume "t \<in> c_trackId ` set (combineRecommendations sources)"
  then obtain x where x: "x \<in> snd ` set (combinedTable (proposals sources))" and t: "t = c_trackId x"
    by (auto simp: set_combineRecommendations)
  then have "proposalsFor t (proposals sources) \<noteq> []" by (simp add: in_combinedTable)
  then obtain r w where "(r, w) \<in> set (proposals sources)" and "rec_trackId r = t"
    by (auto simp: proposalsFor_def filter_empty_conv)
  then show "t \<in> rec_trackId ` fst ` set (proposals sources)" by force
next
  fix t
  assume "t \<in> rec_trackId ` fst ` set (proposals sources)"
  then obtain r w where "(r, w) \<in> set (proposals sources)" and "rec_trackId r = t" by auto
  then have ne: "proposalsFor t (proposals sources) \<noteq> []"
    by (auto simp: proposalsFor_def filter_empty_conv)
  let ?x = "combinedOf t (proposals sources)"
  have "c_trackId ?x = t" by (simp add: combinedOf_def)
  with ne have "?x \<in> snd ` set (combinedTable (proposals sources))"
    by (simp add: in_combinedTable)
  then have "c_trackId ?x \<in> c_trackId ` set (combineRecommendations sources)"
    by (simp only: set_combineRecommendations imageI)
  then show "t \<in> c_trackId ` set (combineRecommendations sources)"
    by (simp add: combinedOf_def)
qed

lemma filter_distinct_key_short:
  "distinct (map f xs) \<Longrightarrow> length (filter (\<lambda>x. f x = t) xs) \<le> 1"
  by (induction xs) (auto simp: filter_empty_conv image_iff)

lemma short_const_map:
  "length xs \<le> 1 \<Longrightarrow> \<forall>x \<in> set xs. f x = L \<Longrightarrow> map f xs = [] \<or> map f xs = [L]"
  by (cases xs) auto

lemma reasons_of_strategy:
  assumes "distinct (map rec_trackId a)" and "\<forall>r \<in> set a. reason r = L"
  shows "map (\<lambda>(r, w). reason r) (proposalsFor t (map (\<lambda>r. (r, wa)) a)) = []
       \<or> map (\<lambda>(r, w). reason r) (proposalsFor t (map (\<lambda>r. (r, wa)) a)) = [L]"
proof -
  have "map (\<lambda>(r, w). reason r) (proposalsFor t (map (\<lambda>r. (r, wa)) a))
        = map reason (filter (\<lambda>r. rec_trackId r = t) a)"
    by (simp add: proposalsFor_def filter_map comp_def)
  moreover have "length (filter (\<lambda>r. rec_trackId r = t) a) \<le> 1"
    using assms(1) by (rule filter_distinct_key_short)
  moreover have "\<forall>r \<in> set (filter (\<lambda>r. rec_trackId r = t) a). reason r = L"
    using assms(2) by simp
  ultimately show ?thesis using short_const_map [of "filter (\<lambda>r. rec_trackId r = t) a" reason L]
    by simp
qed

lemma proposalsFor_append: "proposalsFor t (xs @ ys) = proposalsFor t xs @ proposalsFor t ys"
  by (simp add: proposalsFor_def)

lemma reasons_distinct:
  assumes "distinct (map rec_trackId a)" "distinct (map rec_trackId b)"
    "distinct (map rec_trackId c)"
    "\<forall>r \<in> set a. reason r = ''collaborative''" "\<forall>r \<in> set b. reason r = ''content''"
    "\<forall>r \<in> set c. reason r = ''contextual''"
  shows "distinct (reasons (combinedOf t (proposals [(a, wa), (b, wb), (c, wc)])))"
proof -
  have "reasons (combinedOf t (proposals [(a, wa), (b, wb), (c, wc)]))
        = map (\<lambda>(r, w). reason r) (proposalsFor t (map (\<lambda>r. (r, wa)) a))
          @ map (\<lambda>(r, w). reason r) (proposalsFor t (map (\<lambda>r. (r, wb)) b))
          @ map (\<lambda>(r, w). reason r) (proposalsFor t (map (\<lambda>r. (r, wc)) c))"
    by (simp add: combinedOf_def proposals_three proposalsFor_append)
  then show ?thesis
    using reasons_of_strategy [OF assms(1) assms(4), of t wa]
      reasons_of_strategy [OF assms(2) assms(5), of t wb]
      reasons_of_strategy [OF assms(3) assms(6), of t wc]
    by auto
qed

lemma length_combineRecommendations:
  "length (combineRecommendations sources)
   = card (rec_trackId ` fst ` set (proposals sources))"
proof -
  have "length (combineRecommendations sources)
        = length (map c_trackId (combineRecommendations sources))" by simp
  also have "\<dots> = card (set (map c_trackId (combineRecommendations sources)))"
    using distinct_ids_combineRecommendations [of sources] by (simp only: distinct_card)
  also have "\<dots> = card (c_trackId ` set (combineRecommendations sources))" by simp
  finally show ?thesis by (simp only: ids_combineRecommendations)
qed

text \<open>
  C5, amended. For every three strategy lists the list returned is the first 10 entries
  of the combined list. The combined list has exactly one entry for each proposed track
  and no other entry; the entry's score is the sum of \<open>score * weight\<close> over all proposals of
  the track, with weights 0.4 (collaborative), 0.4 (content) and 0.2 (contextual), and its
  reasons are the list of the reasons of those proposals in order, one per proposal. That
  list has no duplicates when no strategy list proposes a track twice and the three lists
  carry their own labels. The combined list is sorted by descending score, so the returned
  list is too; its length is the smaller of 10 and the number of proposed tracks; and three
  empty lists give the empty list.
\<close>

theorem getSessionRecommendations_combined:
  "getSessionRecommendations a b c
     = take 10 (combineRecommendations [(a, 0.4), (b, 0.4), (c, 0.2)])
   \<and> (\<forall>t \<in> rec_trackId ` (set a \<union> set b \<union> set c).
         \<lparr>c_trackId = t,
          c_score = (\<Sum>(r, w) \<leftarrow> proposalsFor t (proposals [(a, 0.4), (b, 0.4), (c, 0.2)]).
                       score r * w),
          reasons = map (\<lambda>(r, w). reason r)
                      (proposalsFor t (proposals [(a, 0.4), (b, 0.4), (c, 0.2)]))\<rparr>
         \<in> set (combineRecommendations [(a, 0.4), (b, 0.4), (c, 0.2)]))
   \<and> c_trackId ` set (combineRecommendations [(a, 0.4), (b, 0.4), (c, 0.2)])
       = rec_trackId ` (set a \<union> set b \<union> set c)
   \<and> distinct (map c_trackId (combineRecommendations [(a, 0.4), (b, 0.4), (c, 0.2)]))
   \<and> sorted_wrt (\<lambda>x y. c_score y \<le> c_score x)
         (combineRecommendations [(a, 0.4), (b, 0.4), (c, 0.2)])
   \<and> length (getSessionRecommendations a b c)
       = min 10 (card (rec_trackId ` (set a \<union> set b \<union> set c)))
   \<and> sorted_wrt (\<lambda>x y. c_score y \<le> c_score x) (getSessionRecommendations a b c)
   \<and> getSessionRecommendations [] [] [] = []
   \<and> (distinct (map rec_trackId a) \<and> distinct (map rec_trackId b) \<and> distinct (map rec_trackId c)
       \<and> (\<forall>r \<in> set a. reason r = ''collaborative'') \<and> (\<forall>r \<in> set b. reason r = ''content'')
       \<and> (\<forall>r \<in> set c. reason r = ''contextual'')
       \<longrightarrow> (\<forall>x \<in> set (combineRecommendations [(a, 0.4), (b, 0.4), (c, 0.2)]).
              distinct (reasons x)))"
proof -
  let ?S = "[(a, 0.4), (b, 0.4), (c, 0.2 :: real)]"
  let ?P = "proposals ?S"
  let ?L = "combineRecommendations ?S"
  have fstP: "fst ` set ?P = set a \<union> set b \<union> set c"
    by (simp add: proposals_three image_Un image_image Un_assoc)
  have 0: "getSessionRecommendations a b c = take 10 ?L"
    by (simp add: getSessionRecommendations_def)
  have 2: "c_trackId ` set ?L = rec_trackId ` (set a \<union> set b \<union> set c)"
    using fstP by (simp only: ids_combineRecommendations)
  have 1: "\<forall>t \<in> rec_trackId ` (set a \<union> set b \<union> set c).
         \<lparr>c_trackId = t,
          c_score = (\<Sum>(r, w) \<leftarrow> proposalsFor t ?P. score r * w),
          reasons = map (\<lambda>(r, w). reason r) (proposalsFor t ?P)\<rparr> \<in> set ?L"
  proof
    fix t assume "t \<in> rec_trackId ` (set a \<union> set b \<union> set c)"
    then have "t \<in> c_trackId ` set ?L" by (simp only: 2)
    then obtain x where x: "x \<in> set ?L" and t: "t = c_trackId x" by auto
    from x have "x \<in> snd ` set (combinedTable ?P)" by (simp only: set_combineRecommendations)
    then have "x = combinedOf (c_trackId x) ?P"
      by (rule in_combinedTable [THEN iffD1, THEN conjunct2])
    then have "combinedOf t ?P \<in> set ?L" using x t by (simp only:)
    then show "\<lparr>c_trackId = t,
          c_score = (\<Sum>(r, w) \<leftarrow> proposalsFor t ?P. score r * w),
          reasons = map (\<lambda>(r, w). reason r) (proposalsFor t ?P)\<rparr> \<in> set ?L"
      by (simp only: combinedOf_def)
  qed
  have 3: "distinct (map c_trackId ?L)" by (rule distinct_ids_combineRecommendations)
  have 4: "sorted_wrt (\<lambda>x y. c_score y \<le> c_score x) ?L" by (rule sorted_combineRecommendations)
  have len: "length ?L = card (rec_trackId ` (set a \<union> set b \<union> set c))"
    using fstP by (simp only: length_combineRecommendations)
  have 5: "length (getSessionRecommendations a b c)
       = min 10 (card (rec_trackId ` (set a \<union> set b \<union> set c)))"
    unfolding 0 using len by (simp add: min.commute)
  have 6: "sorted_wrt (\<lambda>x y. c_score y \<le> c_score x) (getSessionRecommendations a b c)"
    unfolding 0 by (rule sorted_wrt_take) (rule 4)
  have 7: "getSessionRecommendations [] [] [] = []"
    by (simp add: getSessionRecommendations_def combineRecommendations_def)
  have 8: "distinct (map rec_trackId a) \<and> distinct (map rec_trackId b) \<and> distinct (map rec_trackId c)
       \<and> (\<forall>r \<in> set a. reason r = ''collaborative'') \<and> (\<forall>r \<in> set b. reason r = ''content'')
       \<and> (\<forall>r \<in> set c. reason r = ''contextual'')
       \<longrightarrow> (\<forall>x \<in> set ?L. distinct (reasons x))"
  proof (intro impI ballI)
    fix x
    assume h: "distinct (map rec_trackId a) \<and> distinct (map rec_trackId b) \<and> distinct (map rec_trackId c)
       \<and> (\<forall>r \<in> set a. reason r = ''collaborative'') \<and> (\<forall>r \<in> set b. reason r = ''content'')
       \<and> (\<forall>r \<in> set c. reason r = ''contextual'')"
      and "x \<in> set ?L"
    then have "x \<in> snd ` set (combinedTable ?P)" by (simp only: set_combineRecommendations)
    then have x: "x = combinedOf (c_trackId x) ?P"
      by (rule in_combinedTable [THEN iffD1, THEN conjunct2])
    have "distinct (reasons (combinedOf (c_trackId x) ?P))"
      using h by (intro reasons_distinct) simp_all
    with arg_cong [OF x, of reasons] show "distinct (reasons x)" by (simp only:)
  qed
  from 0 1 2 3 4 5 6 7 8 show ?thesis by (intro conjI)
qed

text \<open>
  C5, as the claim states it, fails: the reasons are an array that grows by one per
  proposal, so a strategy list that proposes a track twice leaves its label twice.
\<close>

theorem reasons_duplicate_counterexample:
  "getSessionRecommendations ex_collab_dup [] []
     = [\<lparr>c_trackId = ''track1'', c_score = 3.08,
         reasons = [''collaborative'', ''collaborative'']\<rparr>]
   \<and> \<not> distinct (reasons (hd (getSessionRecommendations ex_collab_dup [] [])))"
  by (simp add: getSessionRecommendations_def combineRecommendations_def ex_collab_dup_def
      addRecommendation_def)

theorem getSessionRecommendations_combined_witness:
  "distinct (map rec_trackId ex_content) \<and> distinct (map rec_trackId ex_context)
   \<and> map reason ex_content = [''content'']
   \<and> map reason ex_context = [''contextual'', ''contextual'']
   \<and> getSessionRecommendations [] ex_content ex_context
       = [\<lparr>c_trackId = ''track1'', c_score = 0.46, reasons = [''content'', ''contextual'']\<rparr>,
          \<lparr>c_trackId = ''track2'', c_score = 0.14, reasons = [''contextual'']\<rparr>]
   \<and> list_all (\<lambda>x. distinct (reasons x))
         (combineRecommendations [([], 0.4), (ex_content, 0.4), (ex_context, 0.2)])
   \<and> length (getSessionRecommendations [] ex_content ex_context) = 2
   \<and> sorted_wrt (\<lambda>x y. c_score y \<le> c_score x) (getSessionRecommendations [] ex_content ex_context)"
proof -
  have h: "distinct (map rec_trackId []) \<and> distinct (map rec_trackId ex_content)
      \<and> distinct (map rec_trackId ex_context)
      \<and> (\<forall>r \<in> set []. reason r = ''collaborative'') \<and> (\<forall>r \<in> set ex_content. reason r = ''content'')
      \<and> (\<forall>r \<in> set ex_context. reason r = ''contextual'')"
    by (simp add: ex_content_def ex_context_def)
  have l: "map reason ex_content = [''content'']"
    "map reason ex_context = [''contextual'', ''contextual'']"
    by (simp_all add: ex_content_def ex_context_def)
  have v: "getSessionRecommendations [] ex_content ex_context
       = [\<lparr>c_trackId = ''track1'', c_score = 0.46, reasons = [''content'', ''contextual'']\<rparr>,
          \<lparr>c_trackId = ''track2'', c_score = 0.14, reasons = [''contextual'']\<rparr>]"
    by (simp add: getSessionRecommendations_def combineRecommendations_def ex_content_def
        ex_context_def addRecommendation_def)
  from getSessionRecommendations_combined [of "[]" ex_content ex_context] h
  have a: "\<forall>x \<in> set (combineRecommendations [([], 0.4), (ex_content, 0.4), (ex_context, 0.2)]).
             distinct (reasons x)"
    and b: "sorted_wrt (\<lambda>x y. c_score y \<le> c_score x)
              (getSessionRecommendations [] ex_content ex_context)"
    by blast+
  from a have c: "list_all (\<lambda>x. distinct (reasons x))
         (combineRecommendations [([], 0.4), (ex_content, 0.4), (ex_context, 0.2)])"
    by (simp only: list_all_iff)
  have n: "length (getSessionRecommendations [] ex_content ex_context) = 2"
    unfolding v by simp
  from h l v b c n show ?thesis by blast
qed

section \<open>Adaptive recommendations\<close>

text \<open>
  The similarity of two feature records is at most 1, and it is 1 only for equal records.
  So when no other catalog entry has the features of the reacted track, that track is alone
  at the head of the ranking, and dropping the head leaves the ranking of the other tracks.
  This holds in particular in the catalog the engine starts with.
\<close>

lemma calculateContentSimilarity_le_1: "calculateContentSimilarity f g \<le> 1"
proof -
  define a b c d where "a = \<bar>era f - era g\<bar>" and "b = \<bar>energy f - energy g\<bar>"
    and "c = \<bar>valence f - valence g\<bar>" and "d = \<bar>tempo f - tempo g\<bar>"
  have n: "0 \<le> a" "0 \<le> b" "0 \<le> c" "0 \<le> d" by (simp_all add: a_def b_def c_def d_def)
  have "calculateContentSimilarity f g
        = (if genre f = genre g then 1 else 0) * 0.3 + (1 - a / 50) * 0.2 + (1 - b) * 0.2
          + (1 - c) * 0.2 + (1 - d / 100) * 0.1"
    by (simp add: calculateContentSimilarity_def Let_def a_def b_def c_def d_def)
  then show ?thesis using n by argo
qed

lemma calculateContentSimilarity_self: "calculateContentSimilarity f f = 1"
  by (simp add: calculateContentSimilarity_def Let_def)

lemma calculateContentSimilarity_eq_1:
  "calculateContentSimilarity f g = 1 \<Longrightarrow> (f :: features) = g"
proof -
  assume s: "calculateContentSimilarity f g = 1"
  define a b c d where "a = \<bar>era f - era g\<bar>" and "b = \<bar>energy f - energy g\<bar>"
    and "c = \<bar>valence f - valence g\<bar>" and "d = \<bar>tempo f - tempo g\<bar>"
  have n: "0 \<le> a" "0 \<le> b" "0 \<le> c" "0 \<le> d" by (simp_all add: a_def b_def c_def d_def)
  have "calculateContentSimilarity f g
        = (if genre f = genre g then 1 else 0) * 0.3 + (1 - a / 50) * 0.2 + (1 - b) * 0.2
          + (1 - c) * 0.2 + (1 - d / 100) * 0.1"
    by (simp add: calculateContentSimilarity_def Let_def a_def b_def c_def d_def)
  with s have e: "(if genre f = genre g then 1 else 0) * 0.3 + (1 - a / 50) * 0.2 + (1 - b) * 0.2
          + (1 - c) * 0.2 + (1 - d / 100) * 0.1 = (1::real)" by simp
  have g: "genre f = genre g"
  proof (rule ccontr)
    assume "genre f \<noteq> genre g"
    with e n show False by argo
  qed
  with e n have "a = 0" "b = 0" "c = 0" "d = 0" by argo+
  then have "era f = era g" "energy f = energy g" "valence f = valence g" "tempo f = tempo g"
    by (simp_all add: a_def b_def c_def d_def)
  with g show "f = g" by simp
qed

lemma insort_key_least:
  "\<forall>y \<in> set ys. k x \<le> k y \<Longrightarrow> insort_key k x ys = x # ys"
  by (cases ys) simp_all

lemma sort_key_strict_least:
  "\<forall>y \<in> set as \<union> set bs. k x < k y \<Longrightarrow>
     sort_key k (as @ x # bs) = x # sort_key k (as @ bs)"
proof (induction as)
  case Nil
  then have "\<forall>y \<in> set (sort_key k bs). k x \<le> k y" by auto
  then show ?case by (simp add: insort_key_least)
next
  case (Cons a as)
  then have "sort_key k (as @ x # bs) = x # sort_key k (as @ bs)" and "\<not> k a \<le> k x"
    by auto
  then show ?case by simp
qed

lemma getSimilarTracks_excludes_unique_target:
  assumes d: "distinct (map fst catalog)" and t: "map_of catalog t = Some fs"
    and u: "\<forall>(t', fs') \<in> set catalog. t' \<noteq> t \<longrightarrow> fs' \<noteq> fs"
  shows "getSimilarTracks catalog fs n
         = take n (sortByScore (map (similarTo fs) (filter (\<lambda>(t', fs'). t' \<noteq> t) catalog)))"
proof -
  from t have "(t, fs) \<in> set catalog" by (rule map_of_SomeD)
  then obtain as bs where c: "catalog = as @ (t, fs) # bs" by (auto dest: split_list)
  with d have nt: "\<forall>(t', fs') \<in> set as \<union> set bs. t' \<noteq> t"
    by (fastforce simp: image_iff)
  then have f: "filter (\<lambda>(t', fs'). t' \<noteq> t) catalog = as @ bs"
    using c by (auto simp: filter_id_conv)
  have less: "\<forall>y \<in> set (map (similarTo fs) as) \<union> set (map (similarTo fs) bs).
                - score (similarTo fs (t, fs)) < - score y"
  proof
    fix y assume "y \<in> set (map (similarTo fs) as) \<union> set (map (similarTo fs) bs)"
    then obtain t' fs' where m: "(t', fs') \<in> set as \<union> set bs" and y: "y = similarTo fs (t', fs')"
      by auto
    from m nt have "t' \<noteq> t" by auto
    moreover from m c have "(t', fs') \<in> set catalog" by auto
    ultimately have "fs' \<noteq> fs" using u by auto
    then have "calculateContentSimilarity fs fs' \<noteq> 1"
      using calculateContentSimilarity_eq_1 [of fs fs'] by auto
    then have "calculateContentSimilarity fs fs' < 1"
      using calculateContentSimilarity_le_1 [of fs fs'] by simp
    then show "- score (similarTo fs (t, fs)) < - score y"
      by (simp add: y similarTo_def calculateContentSimilarity_self)
  qed
  have "sortByScore (map (similarTo fs) catalog)
        = similarTo fs (t, fs) # sortByScore (map (similarTo fs) (as @ bs))"
    unfolding sortByScore_def c using sort_key_strict_least [OF less] by simp
  then show ?thesis
    by (simp add: getSimilarTracks_def Let_def f similarTo_def [abs_def])
qed

lemma initialCatalog_excludes_reacted_track:
  "(t, fs) \<in> set initialCatalog \<Longrightarrow>
     getSimilarTracks initialCatalog fs 5
       = take 5 (sortByScore (map (similarTo fs) (filter (\<lambda>(t', fs'). t' \<noteq> t) initialCatalog)))"
  by (rule getSimilarTracks_excludes_unique_target)
    (auto simp: initialCatalog_def)

lemma trackFeatures_processReaction:
  "trackFeatures (snd (processReaction sr dr sid rd e)) = trackFeatures e"
  by (simp add: processReaction_def updateUserPreferencesWithScore_def Let_def)

lemma engineReachable_catalog: "engineReachable e \<Longrightarrow> trackFeatures e = initialCatalog"
  by (induction rule: engineReachable.induct)
    (simp_all add: new_engine_def trackFeatures_processReaction)

lemma sorted_sortByScore: "sorted_wrt (\<lambda>x y. score y \<le> score x) (sortByScore rs)"
proof -
  have "sorted (map (\<lambda>r. - score r) (sortByScore rs))" by (simp add: sortByScore_def)
  then show ?thesis by (simp add: sorted_map)
qed

lemma others_exclude_target:
  "x \<in> set (take n (sortByScore (map (similarTo fs) (filter (\<lambda>(t', fs'). t' \<noteq> t) catalog))))
   \<Longrightarrow> rec_trackId x \<noteq> t"
proof -
  assume "x \<in> set (take n (sortByScore (map (similarTo fs) (filter (\<lambda>(t', fs'). t' \<noteq> t) catalog))))"
  then have "x \<in> set (sortByScore (map (similarTo fs) (filter (\<lambda>(t', fs'). t' \<noteq> t) catalog)))"
    by (rule in_set_takeD)
  then show ?thesis by (auto simp: sortByScore_def similarTo_def)
qed

lemma getAdaptiveRecommendations_positive:
  "map_of catalog (trackId rd) = Some fs \<Longrightarrow> isPositive rd \<Longrightarrow>
     getAdaptiveRecommendations sr dr catalog rd = Single (getSimilarTracks catalog fs 5)"
  by (simp add: getAdaptiveRecommendations_def isPositive_def)

lemma getSimilarTracks_reason:
  "x \<in> set (getSimilarTracks catalog fs n) \<Longrightarrow> reason x = ''similar''"
proof -
  assume "x \<in> set (getSimilarTracks catalog fs n)"
  then have "x \<in> set (sortByScore (map (similarTo fs) catalog))"
    by (auto simp: getSimilarTracks_def Let_def similarTo_def [abs_def]
        dest!: in_set_takeD in_set_dropD)
  then show ?thesis by (auto simp: sortByScore_def similarTo_def)
qed

text \<open>
  C3. The engine's catalog is the initial catalog in every state that processing reactions
  leads to. There, for every reaction whose track has features in the catalog and which is
  positive (\<open>like\<close>, \<open>strongly like\<close>, or an intensity of at least 4), the adaptive
  recommendation is the first 5 entries of the ranking of the other catalog tracks by
  descending similarity to the reacted track, which is not among them. The same holds in any
  catalog in which no other track has the features of the reacted track. A \<open>strongly like\<close>
  takes the branch of the similar tracks whatever its intensity, so its entries are never
  contrast entries.
\<close>

theorem adaptive_similar_tracks:
  "(engineReachable e \<longrightarrow> trackFeatures e = initialCatalog)
   \<and> (engineReachable e \<and> map_of (trackFeatures e) (trackId rd) = Some fs \<and> isPositive rd \<longrightarrow>
        fst (processReaction sr dr sid rd e)
          = Single (take 5 (sortByScore (map (similarTo fs)
                      (filter (\<lambda>(t', fs'). t' \<noteq> trackId rd) (trackFeatures e))))))
   \<and> (distinct (map fst catalog) \<and> map_of catalog (trackId rd) = Some fs
        \<and> (\<forall>(t', fs') \<in> set catalog. t' \<noteq> trackId rd \<longrightarrow> fs' \<noteq> fs) \<and> isPositive rd \<longrightarrow>
        getAdaptiveRecommendations sr dr catalog rd
          = Single (take 5 (sortByScore (map (similarTo fs)
                      (filter (\<lambda>(t', fs'). t' \<noteq> trackId rd) catalog)))))
   \<and> (\<forall>x \<in> set (take 5 (sortByScore (map (similarTo fs)
                      (filter (\<lambda>(t', fs'). t' \<noteq> trackId rd) catalog)))).
         rec_trackId x \<noteq> trackId rd)
   \<and> sorted_wrt (\<lambda>x y. score y \<le> score x)
         (sortByScore (map (similarTo fs) (filter (\<lambda>(t', fs'). t' \<noteq> trackId rd) catalog)))
   \<and> (map_of catalog (trackId rd) = Some fs \<and> reaction rd = ''strongly like'' \<longrightarrow>
        getAdaptiveRecommendations sr dr catalog rd = Single (getSimilarTracks catalog fs 5)
        \<and> (\<forall>x \<in> set (getSimilarTracks catalog fs 5). reason x = ''similar''))"
proof -
  have 1: "engineReachable e \<longrightarrow> trackFeatures e = initialCatalog"
    by (simp add: engineReachable_catalog)
  have 2: "engineReachable e \<and> map_of (trackFeatures e) (trackId rd) = Some fs \<and> isPositive rd \<longrightarrow>
        fst (processReaction sr dr sid rd e)
          = Single (take 5 (sortByScore (map (similarTo fs)
                      (filter (\<lambda>(t', fs'). t' \<noteq> trackId rd) (trackFeatures e)))))"
  proof
    assume a: "engineReachable e \<and> map_of (trackFeatures e) (trackId rd) = Some fs \<and> isPositive rd"
    then have c: "trackFeatures e = initialCatalog" by (simp add: engineReachable_catalog)
    with a have "(trackId rd, fs) \<in> set initialCatalog" by (auto dest: map_of_SomeD)
    then have "getSimilarTracks initialCatalog fs 5
       = take 5 (sortByScore (map (similarTo fs)
           (filter (\<lambda>(t', fs'). t' \<noteq> trackId rd) initialCatalog)))"
      by (rule initialCatalog_excludes_reacted_track)
    moreover have "fst (processReaction sr dr sid rd e)
       = getAdaptiveRecommendations sr dr (trackFeatures e) rd"
      by (simp add: processReaction_def updateUserPreferencesWithScore_def Let_def)
    ultimately show "fst (processReaction sr dr sid rd e)
          = Single (take 5 (sortByScore (map (similarTo fs)
                      (filter (\<lambda>(t', fs'). t' \<noteq> trackId rd) (trackFeatures e)))))"
      using a c by (simp add: getAdaptiveRecommendations_positive)
  qed
  have 3: "distinct (map fst catalog) \<and> map_of catalog (trackId rd) = Some fs
        \<and> (\<forall>(t', fs') \<in> set catalog. t' \<noteq> trackId rd \<longrightarrow> fs' \<noteq> fs) \<and> isPositive rd \<longrightarrow>
        getAdaptiveRecommendations sr dr catalog rd
          = Single (take 5 (sortByScore (map (similarTo fs)
                      (filter (\<lambda>(t', fs'). t' \<noteq> trackId rd) catalog))))"
  proof
    assume a: "distinct (map fst catalog) \<and> map_of catalog (trackId rd) = Some fs
        \<and> (\<forall>(t', fs') \<in> set catalog. t' \<noteq> trackId rd \<longrightarrow> fs' \<noteq> fs) \<and> isPositive rd"
    then have "getSimilarTracks catalog fs 5
       = take 5 (sortByScore (map (similarTo fs)
           (filter (\<lambda>(t', fs'). t' \<noteq> trackId rd) catalog)))"
      by (intro getSimilarTracks_excludes_unique_target) simp_all
    then show "getAdaptiveRecommendations sr dr catalog rd
          = Single (take 5 (sortByScore (map (similarTo fs)
                      (filter (\<lambda>(t', fs'). t' \<noteq> trackId rd) catalog))))"
      using a by (simp add: getAdaptiveRecommendations_positive)
  qed
  have 4: "\<forall>x \<in> set (take 5 (sortByScore (map (similarTo fs)
                      (filter (\<lambda>(t', fs'). t' \<noteq> trackId rd) catalog)))).
         rec_trackId x \<noteq> trackId rd"
    using others_exclude_target by blast
  have 5: "sorted_wrt (\<lambda>x y. score y \<le> score x)
         (sortByScore (map (similarTo fs) (filter (\<lambda>(t', fs'). t' \<noteq> trackId rd) catalog)))"
    by (rule sorted_sortByScore)
  have 6: "map_of catalog (trackId rd) = Some fs \<and> reaction rd = ''strongly like'' \<longrightarrow>
        getAdaptiveRecommendations sr dr catalog rd = Single (getSimilarTracks catalog fs 5)
        \<and> (\<forall>x \<in> set (getSimilarTracks catalog fs 5). reason x = ''similar'')"
    using getSimilarTracks_reason
    by (auto simp: getAdaptiveRecommendations_def)
  from 1 2 3 4 5 6 show ?thesis by (intro conjI)
qed

theorem adaptive_similar_tracks_witness:
  "engineReachable new_engine
   \<and> map_of (trackFeatures new_engine) (trackId ex_like) = Some ex_f1
   \<and> isPositive ex_like \<and> intensity ex_like = None
   \<and> fst (processReaction [] [] ''s1'' ex_like new_engine)
       = Single [\<lparr>rec_trackId = ''track5'', score = 0.85, reason = ''similar''\<rparr>,
                 \<lparr>rec_trackId = ''track4'', score = 0.63, reason = ''similar''\<rparr>,
                 \<lparr>rec_trackId = ''track2'', score = 0.58, reason = ''similar''\<rparr>,
                 \<lparr>rec_trackId = ''track3'', score = 0.54, reason = ''similar''\<rparr>]"
proof -
  have r: "engineReachable new_engine" by (rule engine_new)
  have m: "map_of (trackFeatures new_engine) (trackId ex_like) = Some ex_f1"
    by (simp add: new_engine_def initialCatalog_def ex_like_def ex_f1_def)
  have p: "isPositive ex_like" "intensity ex_like = None"
    by (simp_all add: isPositive_def ex_like_def)
  from adaptive_similar_tracks [of new_engine ex_like ex_f1 "[]" "[]" "''s1''"] r m p
  have "fst (processReaction [] [] ''s1'' ex_like new_engine)
          = Single (take 5 (sortByScore (map (similarTo ex_f1)
                      (filter (\<lambda>(t', fs'). t' \<noteq> trackId ex_like) (trackFeatures new_engine)))))"
    by blast
  moreover have "take 5 (sortByScore (map (similarTo ex_f1)
                      (filter (\<lambda>(t', fs'). t' \<noteq> trackId ex_like) (trackFeatures new_engine))))
       = [\<lparr>rec_trackId = ''track5'', score = 0.85, reason = ''similar''\<rparr>,
          \<lparr>rec_trackId = ''track4'', score = 0.63, reason = ''similar''\<rparr>,
          \<lparr>rec_trackId = ''track2'', score = 0.58, reason = ''similar''\<rparr>,
          \<lparr>rec_trackId = ''track3'', score = 0.54, reason = ''similar''\<rparr>]"
    by (simp add: new_engine_def initialCatalog_def ex_like_def ex_f1_def sortByScore_def
        similarTo_def calculateContentSimilarity_def Let_def)
  ultimately show ?thesis using r m p by simp
qed

text \<open>
  The entry left out is the head of the ranking, whichever track that is: in a catalog where
  two tracks have the same features and the reacted track comes second, the head is the
  other track.
\<close>

lemma getSimilarTracks_twin_catalog:
  "map_of ex_twin_catalog (trackId ex_like_b) = Some ex_features
   \<and> getAdaptiveRecommendations [] [] ex_twin_catalog ex_like_b
       = Single [\<lparr>rec_trackId = ''b'', score = 1, reason = ''similar''\<rparr>]"
  by (simp add: getAdaptiveRecommendations_def getSimilarTracks_def sortByScore_def
      ex_twin_catalog_def ex_like_b_def ex_features_def calculateContentSimilarity_def Let_def)

section \<open>Reactions that are not well-formed\<close>

text \<open>
  C2. A reaction whose label is not one of the five sentiments, or whose intensity is
  outside 1 to 5, is meant to be rejected before anything is written. The HTTP route does
  so through its body schema. The WebSocket handler does not: for the label \<open>meh\<close> with
  intensity 9 it appends the reaction to the session's list and to the participant's list,
  counts it as a positive reaction, and stores 9 as the profile's score for the track.
\<close>

theorem invalid_reaction_recorded:
  "\<not> reactionSchema ex_bad_msg
   \<and> postReaction ex_now [] [] ''s1'' ex_bad_msg ex_srv = (BadRequest, ex_srv)
   \<and> (\<exists>s'. activeSessions (sessionManager (snd (wsUserReaction ex_now [] [] ''s1'' ex_bad_msg ex_srv))) ''s1''
              = Some s'
         \<and> s_reactions s' = [ex_bad_rd]
         \<and> map (\<lambda>(u, p). p_reactions p) (participants s') = [[ex_bad_rd]]
         \<and> positiveReactions (s_metrics s') = 1)
   \<and> preferenceOf (musicEngine (snd (wsUserReaction ex_now [] [] ''s1'' ex_bad_msg ex_srv)))
        ''p1'' ''track1'' = Some (Number 9)"
  by (simp add: reactionSchema_def postReaction_def wsUserReaction_def ex_bad_msg_def ex_srv_def
      processReaction_def updateUserPreferencesWithScore_def reactionToScore_def preferenceOf_def
      lookupBaseScore_def updateUserReaction_def ex_m2_s1 updateSessionMetrics_def isPositive_def intensity_ge_def
      ex_bad_rd_def ex_now_def later_def Let_def new_engine_def split_beta ex_s1_def
      createSession_def)

end
